theory Spec2Isabelle
  imports Main
begin

section \<open>Voucher normalisation (UniFiAdapter.mapVouchers)\<close>

text \<open>
  The raw voucher record of the controller, \<^verbatim>\<open>UniFiVoucher\<close>, restricted to the
  fields that \<^verbatim>\<open>mapVouchers\<close> reads. Every field except \<^verbatim>\<open>code\<close> is optional in
  the source; an absent field (\<^verbatim>\<open>undefined\<close>) is \<open>None\<close>. The source names \<^verbatim>\<open>_id\<close>
  and \<^verbatim>\<open>id\<close> are written \<open>legacy_id\<close> and \<open>new_id\<close>, and \<^verbatim>\<open>note\<close> is \<open>voucher_note\<close>. Numeric fields are counts,
  minutes, kbps and Unix seconds and are modelled as integers.
\<close>

record UniFiVoucher =
  legacy_id :: "string option"
  create_time :: "int option"
  code :: string
  quota :: "int option"
  duration :: "int option"
  used :: "int option"
  qos_rate_max_up :: "int option"
  qos_rate_max_down :: "int option"
  voucher_note :: "string option"
  status :: "string option"
  start_time :: "int option"
  new_id :: "string option"
  createdAt :: "string option"
  name :: "string option"
  authorizedGuestLimit :: "int option"
  authorizedGuestCount :: "int option"
  activatedAt :: "string option"
  expired :: "bool option"
  timeLimitMinutes :: "int option"
  rxRateLimitKbps :: "int option"
  txRateLimitKbps :: "int option"

text \<open>
  A JavaScript number that may be \<^verbatim>\<open>NaN\<close>: the two timestamps computed from a date
  string are \<^verbatim>\<open>NaN\<close> when the string is not a date.
\<close>

datatype jsnum = Num int | NaN

text \<open>The canonical voucher, \<^verbatim>\<open>MappedVoucher\<close>; its fields carry the prefix \<open>m_\<close>.\<close>

record MappedVoucher =
  m_id :: string
  m_code :: string
  m_duration :: int
  m_quota :: int
  m_createTime :: jsnum
  m_startTime :: "jsnum option"
  m_used :: int
  m_status :: string
  m_qosRateMaxUp :: "int option"
  m_qosRateMaxDown :: "int option"
  m_note :: "string option"

text \<open>
  JavaScript truthiness of an optional number and of an optional string: \<^verbatim>\<open>undefined\<close>,
  \<^verbatim>\<open>0\<close> and the empty string are falsy.
\<close>

fun truthy_num :: "int option \<Rightarrow> bool" where
  "truthy_num None = False"
| "truthy_num (Some n) = (n \<noteq> 0)"

fun truthy_str :: "string option \<Rightarrow> bool" where
  "truthy_str None = False"
| "truthy_str (Some s) = (s \<noteq> [])"

text \<open>
  \<^verbatim>\<open>a || b\<close>: \<open>a\<close> when it is truthy, else \<open>b\<close>. \<open>js_or_num\<close> and \<open>js_or_str\<close> are
  the operator with an optional right operand, \<open>num_or\<close> and \<open>str_or\<close> the operator
  with a right operand that is always there (a literal default, or the rest of a chain
  that ends in one).
\<close>

definition js_or_num :: "int option \<Rightarrow> int option \<Rightarrow> int option" where
  "js_or_num a b = (if truthy_num a then a else b)"

definition js_or_str :: "string option \<Rightarrow> string option \<Rightarrow> string option" where
  "js_or_str a b = (if truthy_str a then a else b)"

fun num_or :: "int option \<Rightarrow> int \<Rightarrow> int" where
  "num_or None d = d"
| "num_or (Some n) d = (if n \<noteq> 0 then n else d)"

fun str_or :: "string option \<Rightarrow> string \<Rightarrow> string" where
  "str_or None d = d"
| "str_or (Some s) d = (if s \<noteq> [] then s else d)"

text \<open>
  \<^verbatim>\<open>Math.floor(new Date(s).getTime() / 1000)\<close>. The date parser is the platform's; it
  is a parameter \<open>parse\<close> giving the milliseconds since the epoch, or \<open>None\<close> for an
  invalid date, whose time is \<^verbatim>\<open>NaN\<close>. Integer \<open>div\<close> rounds down, as \<^verbatim>\<open>Math.floor\<close> does.
\<close>

definition date_seconds :: "(string \<Rightarrow> int option) \<Rightarrow> string \<Rightarrow> jsnum" where
  "date_seconds parse s = (case parse s of None \<Rightarrow> NaN | Some ms \<Rightarrow> Num (ms div 1000))"

text \<open>\<^verbatim>\<open>const isNewApi = !!v.id && !v._id\<close> (computed by the source, not used afterwards).\<close>

definition isNewApi :: "UniFiVoucher \<Rightarrow> bool" where
  "isNewApi v = (truthy_str (new_id v) \<and> \<not> truthy_str (legacy_id v))"

text \<open>The creation time: \<^verbatim>\<open>createdAt\<close>, else \<^verbatim>\<open>create_time\<close>, else the clock \<open>nowMs\<close> (\<^verbatim>\<open>Date.now()\<close>).\<close>

definition map_createTime :: "(string \<Rightarrow> int option) \<Rightarrow> int \<Rightarrow> UniFiVoucher \<Rightarrow> jsnum" where
  "map_createTime parse nowMs v =
     (if truthy_str (createdAt v) then date_seconds parse (the (createdAt v))
      else if truthy_num (create_time v) then Num (the (create_time v))
      else Num (nowMs div 1000))"

definition map_startTime :: "(string \<Rightarrow> int option) \<Rightarrow> UniFiVoucher \<Rightarrow> jsnum option" where
  "map_startTime parse v =
     (if truthy_str (activatedAt v) then Some (date_seconds parse (the (activatedAt v)))
      else if truthy_num (start_time v) then Some (Num (the (start_time v)))
      else None)"

text \<open>\<^verbatim>\<open>v.timeLimitMinutes || v.duration || 0\<close>, and the same shape for quota and used.\<close>

definition map_duration :: "UniFiVoucher \<Rightarrow> int" where
  "map_duration v = num_or (timeLimitMinutes v) (num_or (duration v) 0)"

definition map_quota :: "UniFiVoucher \<Rightarrow> int" where
  "map_quota v = num_or (authorizedGuestLimit v) (num_or (quota v) 1)"

definition map_used :: "UniFiVoucher \<Rightarrow> int" where
  "map_used v = num_or (authorizedGuestCount v) (num_or (used v) 0)"

text \<open>The status chain of the source, in its order.\<close>

definition map_status :: "UniFiVoucher \<Rightarrow> string" where
  "map_status v =
     (if expired v = Some True then ''EXPIRED''
      else if truthy_str (status v) then the (status v)
      else if map_used v > 0 \<and> map_quota v = 1 then ''USED''
      else if map_quota v = 1 then ''VALID_ONE''
      else ''VALID_MULTI'')"

text \<open>\<^verbatim>\<open>v.id || v._id || v.code\<close>; \<^verbatim>\<open>code\<close> is always a string.\<close>

definition map_id :: "UniFiVoucher \<Rightarrow> string" where
  "map_id v = str_or (new_id v) (str_or (legacy_id v) (code v))"

definition mapVoucher :: "(string \<Rightarrow> int option) \<Rightarrow> int \<Rightarrow> UniFiVoucher \<Rightarrow> MappedVoucher" where
  "mapVoucher parse nowMs v =
     \<lparr> m_id = map_id v,
       m_code = code v,
       m_duration = map_duration v,
       m_quota = map_quota v,
       m_createTime = map_createTime parse nowMs v,
       m_startTime = map_startTime parse v,
       m_used = map_used v,
       m_status = map_status v,
       m_qosRateMaxUp = js_or_num (txRateLimitKbps v) (qos_rate_max_up v),
       m_qosRateMaxDown = js_or_num (rxRateLimitKbps v) (qos_rate_max_down v),
       m_note = js_or_str (name v) (voucher_note v) \<rparr>"

text \<open>
  \<^verbatim>\<open>mapVouchers\<close> maps every record of the list. One call reads the clock once per
  record; the model gives all records of a call the same reading.
\<close>

definition mapVouchers ::
  "(string \<Rightarrow> int option) \<Rightarrow> int \<Rightarrow> UniFiVoucher list \<Rightarrow> MappedVoucher list" where
  "mapVouchers parse nowMs vs = map (mapVoucher parse nowMs) vs"

text \<open>A raw record with every optional field absent, to build examples from.\<close>

definition blank :: "string \<Rightarrow> UniFiVoucher" where
  "blank c =
     \<lparr> legacy_id = None, create_time = None, code = c, quota = None, duration = None,
       used = None, qos_rate_max_up = None, qos_rate_max_down = None, voucher_note = None,
       status = None, start_time = None, new_id = None, createdAt = None, name = None,
       authorizedGuestLimit = None, authorizedGuestCount = None, activatedAt = None,
       expired = None, timeLimitMinutes = None, rxRateLimitKbps = None,
       txRateLimitKbps = None \<rparr>"

section \<open>Errors\<close>

text \<open>
  The values the code throws. \<open>AxiosError\<close> is the HTTP library's error: the status of
  the response when there was one, the network error code when there was none, and
  the message. The other constructors are the classes of \<^verbatim>\<open>core/errors\<close> with the
  constructor arguments the code passes: \<open>ConnectionError message service host port
  errorCode\<close>, \<open>AuthenticationError message controllerType authMethod\<close>,
  \<open>ControllerError message controllerType\<close>, \<open>VorioApiError message statusCode\<close>.
\<close>

datatype error =
    AxiosError "nat option" "string option" string
  | ConnectionError string string "string option" "nat option" "string option"
  | AuthenticationError string string string
  | ControllerError string string
  | VorioApiError string "nat option"

text \<open>\<^verbatim>\<open>getErrorMessage\<close>: every thrown value here is an \<^verbatim>\<open>Error\<close>, so it is its message.\<close>

fun getErrorMessage :: "error \<Rightarrow> string" where
  "getErrorMessage (AxiosError st c m) = m"
| "getErrorMessage (ConnectionError m svc h p c) = m"
| "getErrorMessage (AuthenticationError m t a) = m"
| "getErrorMessage (ControllerError m t) = m"
| "getErrorMessage (VorioApiError m st) = m"

section \<open>The controller adapter (UniFiAdapter)\<close>

subsection \<open>Strings\<close>

text \<open>A number printed in decimal, as a template literal prints it.\<close>

definition digit :: "nat \<Rightarrow> char" where
  "digit d = char_of (of_char (CHR ''0'') + d)"

fun decimal :: "nat \<Rightarrow> string" where
  "decimal n = (if 9 < n then decimal (n div 10) @ [digit (n mod 10)] else [digit n])"

declare decimal.simps [simp del]

text \<open>\<^verbatim>\<open>s.includes(sub)\<close> and \<^verbatim>\<open>s.toLowerCase()\<close> (on ASCII letters).\<close>

fun starts_with :: "string \<Rightarrow> string \<Rightarrow> bool" where
  "starts_with s [] = True"
| "starts_with [] (c # sub) = False"
| "starts_with (d # s) (c # sub) = (d = c \<and> starts_with s sub)"

fun str_includes :: "string \<Rightarrow> string \<Rightarrow> bool" where
  "str_includes [] sub = (sub = [])"
| "str_includes (d # s) sub = (starts_with (d # s) sub \<or> str_includes s sub)"

definition lower_char :: "char \<Rightarrow> char" where
  "lower_char c =
     (if 65 \<le> (of_char c :: nat) \<and> (of_char c :: nat) \<le> 90
      then char_of ((of_char c :: nat) + 32) else c)"

definition toLowerCase :: "string \<Rightarrow> string" where
  "toLowerCase s = map lower_char s"

subsection \<open>Configuration, requests and responses\<close>

text \<open>
  The part of \<^verbatim>\<open>config.unifi\<close> that the modelled methods read. \<open>useApiKey\<close> is
  \<^verbatim>\<open>!!config.unifi.apiKey\<close>, fixed by the constructor.
\<close>

record config =
  unifi_host :: string
  unifi_port :: nat
  unifi_site :: string
  useApiKey :: bool

text \<open>
  The HTTP requests of the modelled methods. The new-API requests carry the site id
  the adapter holds (possibly \<^verbatim>\<open>undefined\<close>); the voucher list request carries its
  offset (the limit is the constant page size); the delete requests carry the voucher
  id. The legacy paths contain the configured site, which does not change.
  \<open>Follow l\<close> is the \<^verbatim>\<open>GET\<close> of the location \<open>l\<close> that a redirect names.
\<close>

datatype request =
    GetRoot
  | Follow string
  | GetSites
  | PostAuthLogin
  | PostLogin
  | GetVouchersNew "string option" nat
  | GetVouchersLegacy
  | DeleteVoucherNew "string option" string
  | DeleteVoucherLegacy string
  | GetWlanProxy
  | GetWlanDirect

record UniFiSite =
  site_name :: "string option"
  site_desc :: "string option"
  site_id :: "string option"

text \<open>The raw WLAN record, \<^verbatim>\<open>UniFiWLAN\<close>: the fields that the mapping reads.\<close>

record UniFiWLAN =
  wlan_name :: "string option"
  wlan_enabled :: "bool option"
  wlan_security :: "string option"
  wlan_is_guest :: "bool option"
  wlan_ssid :: "string option"
  wlan_isEnabled :: "bool option"
  wlan_wlanType :: "string option"
  wlan_securityMode :: "string option"
  wlan_isGuest :: "bool option"

text \<open>
  A response body, seen through the accessors the code applies to it: \<^verbatim>\<open>meta.rc\<close>,
  \<^verbatim>\<open>meta.msg\<close>, \<^verbatim>\<open>totalCount\<close>, and \<^verbatim>\<open>data\<close> read as a list of sites, of vouchers or
  of WLANs by the method that asked. \<open>None\<close> is a value the accessor does not find.
  For the site list, \<open>data_sites\<close> is \<^verbatim>\<open>response.data.data || response.data\<close> when
  that is an array. A response whose \<^verbatim>\<open>data\<close> is falsy has the body \<open>None\<close>.
\<close>

record body =
  meta_rc :: "string option"
  meta_msg :: "string option"
  totalCount :: "nat option"
  data_sites :: "UniFiSite list option"
  data_vouchers :: "UniFiVoucher list option"
  data_wlans :: "UniFiWLAN list option"

text \<open>A response: its status, its \<^verbatim>\<open>Location\<close> header when it has one, and its body.\<close>

record response =
  resp_status :: nat
  resp_location :: "string option"
  resp_data :: "body option"

text \<open>
  What the network gives for a request: a response, or no response and an error
  with an optional code (\<^verbatim>\<open>ECONNREFUSED\<close>, \<^verbatim>\<open>ETIMEDOUT\<close>, ...) and a message.
  The controller is a function of the number of requests made before and of the
  request, so that it may answer the same request differently over time.
\<close>

datatype outcome = Response response | NetworkError "string option" string

type_synonym controller = "nat \<Rightarrow> request \<Rightarrow> outcome"

text \<open>
  The fields of the adapter that the modelled methods use, the requests it has made
  and the warnings it has logged. The cookies and the CSRF token only decorate the
  requests; the controller above answers as it likes, so they are left out.
\<close>

record adapter =
  isLoggedIn :: bool
  siteId :: "string option"
  requests :: "request list"
  warnings :: "string list"

definition send :: "controller \<Rightarrow> request \<Rightarrow> adapter \<Rightarrow> outcome \<times> adapter" where
  "send ctl req a = (ctl (length (requests a)) req, a\<lparr>requests := requests a @ [req]\<rparr>)"

text \<open>
  A request through the adapter's HTTP client. Its \<^verbatim>\<open>validateStatus\<close> accepts
  \<^verbatim>\<open>status < 400 || status === 302\<close>; any other status is thrown by the library as
  an error carrying the response status, as is a network failure, carrying its code.
\<close>

definition client_request ::
  "controller \<Rightarrow> request \<Rightarrow> adapter \<Rightarrow> (error + response) \<times> adapter" where
  "client_request ctl req a =
     (case send ctl req a of
        (NetworkError c m, a') \<Rightarrow> (Inl (AxiosError None c m), a')
      | (Response r, a') \<Rightarrow>
          (if resp_status r < 400 \<or> resp_status r = 302 then (Inr r, a')
           else (Inl (AxiosError (Some (resp_status r))
                        (Some (if resp_status r < 500 then ''ERR_BAD_REQUEST''
                               else ''ERR_BAD_RESPONSE''))
                        (''Request failed with status code '' @ decimal (resp_status r))),
                 a')))"

text \<open>\<^verbatim>\<open>response.data?.meta?.rc\<close> and \<^verbatim>\<open>response.data?.meta?.msg\<close>.\<close>

definition rc_of :: "response \<Rightarrow> string option" where
  "rc_of r = (case resp_data r of None \<Rightarrow> None | Some b \<Rightarrow> meta_rc b)"

definition msg_of :: "response \<Rightarrow> string option" where
  "msg_of r = (case resp_data r of None \<Rightarrow> None | Some b \<Rightarrow> meta_msg b)"

text \<open>\<^verbatim>\<open>isSessionExpired\<close>: the error carries a response with status 401.\<close>

fun isSessionExpired :: "error \<Rightarrow> bool" where
  "isSessionExpired (AxiosError st c m) = (st = Some 401)"
| "isSessionExpired _ = False"

subsection \<open>Connectivity and login\<close>

text \<open>\<^verbatim>\<open>${config.unifi.host}:${config.unifi.port}\<close>\<close>

definition host_port :: "config \<Rightarrow> string" where
  "host_port cfg = unifi_host cfg @ '':'' @ decimal (unifi_port cfg)"

definition getConnectionErrorMessage :: "config \<Rightarrow> string \<Rightarrow> string" where
  "getConnectionErrorMessage cfg errorCode =
     (if errorCode = ''ECONNREFUSED'' then
        ''Connection refused. The UniFi Controller at '' @ host_port cfg @
        '' is not accepting connections. '' @
        ''Please verify the controller is running and the host/port are correct.''
      else if errorCode = ''ETIMEDOUT'' \<or> errorCode = ''ECONNABORTED'' then
        ''Connection timed out. The UniFi Controller at '' @ host_port cfg @
        '' did not respond. '' @
        ''Please check network connectivity and firewall settings.''
      else if errorCode = ''ENOTFOUND'' then
        ''Host not found. Could not resolve hostname '' @ [CHR 39] @ unifi_host cfg @ [CHR 39] @
        ''. '' @ ''Please check the hostname is spelled correctly.''
      else if errorCode = ''DEPTH_ZERO_SELF_SIGNED_CERT'' \<or>
              errorCode = ''UNABLE_TO_VERIFY_LEAF_SIGNATURE'' \<or>
              errorCode = ''CERT_HAS_EXPIRED'' then
        ''SSL/TLS certificate error when connecting to '' @ unifi_host cfg @ ''. '' @
        ''Set UNIFI_SKIP_SSL_VERIFY=true if using a self-signed certificate.''
      else
        ''Could not connect to UniFi Controller at '' @ host_port cfg @ ''. '' @
        ''Error: '' @ errorCode)"

text \<open>
  The client that \<^verbatim>\<open>testConnectivity\<close> creates does not set \<^verbatim>\<open>maxRedirects\<close>, unlike
  the adapter's own client, so the HTTP library follows redirects for it: a response
  with a status from 300 to 399 and a non-empty \<^verbatim>\<open>Location\<close> is answered by a \<^verbatim>\<open>GET\<close> of
  that location, up to the library's default number of redirects; one redirect more
  is thrown as an error with the code \<^verbatim>\<open>ERR_FR_TOO_MANY_REDIRECTS\<close>. The library is not
  part of the repository; its default limit is taken as 21.
\<close>

definition redirect_target :: "response \<Rightarrow> string option" where
  "redirect_target r =
     (if 300 \<le> resp_status r \<and> resp_status r < 400 \<and> truthy_str (resp_location r)
      then resp_location r else None)"

definition defaultMaxRedirects :: nat where
  "defaultMaxRedirects = 21"

fun follow_redirects :: "controller \<Rightarrow> nat \<Rightarrow> request \<Rightarrow> adapter \<Rightarrow> outcome \<times> adapter" where
  "follow_redirects ctl 0 req a =
     (case send ctl req a of
        (NetworkError c m, a') \<Rightarrow> (NetworkError c m, a')
      | (Response r, a') \<Rightarrow>
          (case redirect_target r of
             None \<Rightarrow> (Response r, a')
           | Some l \<Rightarrow>
               (NetworkError (Some ''ERR_FR_TOO_MANY_REDIRECTS'')
                  ''Maximum number of redirects exceeded'', a')))"
| "follow_redirects ctl (Suc remaining) req a =
     (case send ctl req a of
        (NetworkError c m, a') \<Rightarrow> (NetworkError c m, a')
      | (Response r, a') \<Rightarrow>
          (case redirect_target r of
             None \<Rightarrow> (Response r, a')
           | Some l \<Rightarrow> follow_redirects ctl remaining (Follow l) a'))"

text \<open>
  \<^verbatim>\<open>testConnectivity\<close>: a \<^verbatim>\<open>GET /\<close> through a client that accepts every status and
  follows redirects. Any final response means reachable; no response, or too many
  redirects, is thrown as a \<^verbatim>\<open>ConnectionError\<close> carrying the host, the port and the
  code (\<^verbatim>\<open>axiosError.code || 'UNKNOWN'\<close>).
\<close>

definition testConnectivity :: "config \<Rightarrow> controller \<Rightarrow> adapter \<Rightarrow> (error + bool) \<times> adapter" where
  "testConnectivity cfg ctl a =
     (case follow_redirects ctl defaultMaxRedirects GetRoot a of
        (Response r, a') \<Rightarrow> (Inr True, a')
      | (NetworkError c m, a') \<Rightarrow>
          (let errorCode = str_or c ''UNKNOWN'' in
           (Inl (ConnectionError (getConnectionErrorMessage cfg errorCode) ''unifi''
                   (Some (unifi_host cfg)) (Some (unifi_port cfg)) (Some errorCode)),
            a')))"

text \<open>
  The message of \<^verbatim>\<open>formatErrorForUser\<close>, which \<^verbatim>\<open>handleAuthError\<close> quotes for an error
  that is neither a 401 nor a 403.
\<close>

definition status_message :: "nat \<Rightarrow> string" where
  "status_message st =
     (if st = 401 then ''Authentication failed''
      else if st = 403 then ''Access denied''
      else if st = 404 then ''Resource not found''
      else if st = 429 then ''Rate limit exceeded''
      else if st = 500 then ''Controller internal error''
      else if st = 503 then ''Service unavailable''
      else ''HTTP error '' @ decimal st)"

definition formatted_message :: "error \<Rightarrow> string" where
  "formatted_message e =
     (let c = (case e of AxiosError st c m \<Rightarrow> c | _ \<Rightarrow> None);
          st = (case e of AxiosError st c m \<Rightarrow> st | _ \<Rightarrow> None)
      in if c = Some ''ECONNREFUSED'' then ''Connection refused - Controller is not reachable''
         else if c = Some ''ETIMEDOUT'' \<or> c = Some ''ECONNABORTED'' then ''Connection timed out''
         else if c = Some ''ENOTFOUND'' then ''Host not found - DNS resolution failed''
         else if c = Some ''UNABLE_TO_VERIFY_LEAF_SIGNATURE'' \<or> c = Some ''CERT_HAS_EXPIRED'' \<or>
                 c = Some ''DEPTH_ZERO_SELF_SIGNED_CERT'' \<or>
                 str_includes (getErrorMessage e) ''certificate''
           then ''SSL certificate verification failed''
         else if truthy_num (map_option int st) then status_message (the st)
         else getErrorMessage e)"

text \<open>\<^verbatim>\<open>handleAuthError\<close> always throws; this is the error it throws.\<close>

definition handleAuthError :: "error \<Rightarrow> string \<Rightarrow> error" where
  "handleAuthError e method =
     (case e of
        AuthenticationError m t a \<Rightarrow> e
      | _ \<Rightarrow>
        (let st = (case e of AxiosError st c m \<Rightarrow> st | _ \<Rightarrow> None) in
         if st = Some 401 then
           AuthenticationError
             (if method = ''api_key'' then ''API key is invalid or expired''
              else ''Username or password is incorrect'') ''unifi'' method
         else if st = Some 403 then
           AuthenticationError
             (if method = ''api_key'' then ''API key does not have required permissions''
              else ''Account does not have required permissions'') ''unifi'' method
         else
           AuthenticationError (''Authentication failed: '' @ formatted_message e)
             ''unifi'' method))"

text \<open>
  \<^verbatim>\<open>loginWithApiKey\<close>: the site list validates the key. The target is the site whose
  name, description or id is the configured site (\<^verbatim>\<open>config.unifi.site || 'default'\<close>),
  else the first site. Whatever is thrown inside goes through \<^verbatim>\<open>handleAuthError\<close>.
\<close>

definition site_matches :: "string \<Rightarrow> UniFiSite \<Rightarrow> bool" where
  "site_matches target s =
     (site_name s = Some target \<or> site_desc s = Some target \<or> site_id s = Some target)"

definition loginWithApiKey :: "config \<Rightarrow> controller \<Rightarrow> adapter \<Rightarrow> (error + unit) \<times> adapter" where
  "loginWithApiKey cfg ctl a =
     (case client_request ctl GetSites a of
        (Inl e, a') \<Rightarrow> (Inl (handleAuthError e ''api_key''), a')
      | (Inr r, a') \<Rightarrow>
          (case (if resp_status r \<noteq> 200 then None else resp_data r) of
             None \<Rightarrow>
               (Inl (AuthenticationError ''Failed to fetch sites - invalid API response''
                       ''unifi'' ''api_key''), a')
           | Some b \<Rightarrow>
               (case data_sites b of
                  None \<Rightarrow>
                    (Inl (AuthenticationError
                            ''No sites found. Please check API key permissions.''
                            ''unifi'' ''api_key''), a')
                | Some [] \<Rightarrow>
                    (Inl (AuthenticationError
                            ''No sites found. Please check API key permissions.''
                            ''unifi'' ''api_key''), a')
                | Some (first # others) \<Rightarrow>
                    (let targetSite = str_or (Some (unifi_site cfg)) ''default'';
                         site = (case find (site_matches targetSite) (first # others) of
                                   Some s \<Rightarrow> s | None \<Rightarrow> first)
                     in (Inr (), a'\<lparr>siteId := site_id site, isLoggedIn := True\<rparr>)))))"

text \<open>
  \<^verbatim>\<open>loginWithCredentials\<close>: the UniFi OS endpoint first; whatever it throws, or any
  accepted status other than 200, leads to the legacy endpoint, which logs in on
  \<^verbatim>\<open>meta.rc === 'ok'\<close> or status 200 and otherwise throws the rejection.
\<close>

definition loginLegacyEndpoint :: "controller \<Rightarrow> adapter \<Rightarrow> (error + unit) \<times> adapter" where
  "loginLegacyEndpoint ctl a =
     (case client_request ctl PostLogin a of
        (Inl e, a') \<Rightarrow> (Inl (handleAuthError e ''credentials''), a')
      | (Inr r, a') \<Rightarrow>
          (if rc_of r = Some ''ok'' \<or> resp_status r = 200
           then (Inr (), a'\<lparr>isLoggedIn := True\<rparr>)
           else (Inl (handleAuthError
                        (AuthenticationError
                           (''Authentication failed: '' @ str_or (msg_of r) ''Login rejected'')
                           ''unifi'' ''credentials'')
                        ''credentials''), a')))"

definition loginWithCredentials :: "controller \<Rightarrow> adapter \<Rightarrow> (error + unit) \<times> adapter" where
  "loginWithCredentials ctl a =
     (case client_request ctl PostAuthLogin a of
        (Inl e, a') \<Rightarrow> loginLegacyEndpoint ctl a'
      | (Inr r, a') \<Rightarrow>
          (if resp_status r = 200 then (Inr (), a'\<lparr>isLoggedIn := True\<rparr>)
           else loginLegacyEndpoint ctl a'))"

text \<open>\<^verbatim>\<open>login\<close>: the connectivity test first; authentication only when it returns.\<close>

definition login :: "config \<Rightarrow> controller \<Rightarrow> adapter \<Rightarrow> (error + unit) \<times> adapter" where
  "login cfg ctl a =
     (case testConnectivity cfg ctl a of
        (Inl e, a') \<Rightarrow> (Inl e, a')
      | (Inr ok, a') \<Rightarrow>
          (if useApiKey cfg then loginWithApiKey cfg ctl a' else loginWithCredentials ctl a'))"

text \<open>The first statement of every operation: \<^verbatim>\<open>if (!this.isLoggedIn) await this.login()\<close>.\<close>

definition ensureLoggedIn :: "config \<Rightarrow> controller \<Rightarrow> adapter \<Rightarrow> (error + unit) \<times> adapter" where
  "ensureLoggedIn cfg ctl a = (if \<not> isLoggedIn a then login cfg ctl a else (Inr (), a))"

subsection \<open>Vouchers\<close>

text \<open>
  \<^verbatim>\<open>fetchVouchersNewApi\<close>: the \<^verbatim>\<open>while (hasMore)\<close> loop, with the vouchers collected
  and the offset as arguments. It asks for the next page while the offset is below
  the total the controller reports and the page was not empty; a controller that
  keeps reporting more keeps it running, so the result is optional: \<open>None\<close> is a run
  that never returns.
\<close>

partial_function (option) fetchVouchersPages ::
  "controller \<Rightarrow> UniFiVoucher list \<Rightarrow> nat \<Rightarrow> adapter \<Rightarrow>
     ((error + UniFiVoucher list) \<times> adapter) option" where
  "fetchVouchersPages ctl vouchers offset a =
     (case client_request ctl (GetVouchersNew (siteId a) offset) a of
        (Inl e, a') \<Rightarrow> Some (Inl e, a')
      | (Inr r, a') \<Rightarrow>
          (case resp_data r of
             None \<Rightarrow> Some (Inr vouchers, a')
           | Some b \<Rightarrow>
               (let page = (case data_vouchers b of Some d \<Rightarrow> d | None \<Rightarrow> []);
                    count = (case totalCount b of Some t \<Rightarrow> t | None \<Rightarrow> 0)
                in if offset + length page < count \<and> length page > 0
                   then fetchVouchersPages ctl (vouchers @ page) (offset + length page) a'
                   else Some (Inr (vouchers @ page), a'))))"

declare fetchVouchersPages.simps [code]

definition fetchVouchersNewApi ::
  "controller \<Rightarrow> adapter \<Rightarrow> ((error + UniFiVoucher list) \<times> adapter) option" where
  "fetchVouchersNewApi ctl a = fetchVouchersPages ctl [] 0 a"

definition fetchVouchersLegacyApi ::
  "controller \<Rightarrow> adapter \<Rightarrow> (error + UniFiVoucher list) \<times> adapter" where
  "fetchVouchersLegacyApi ctl a =
     (case client_request ctl GetVouchersLegacy a of
        (Inl e, a') \<Rightarrow> (Inl e, a')
      | (Inr r, a') \<Rightarrow>
          (if rc_of r \<noteq> Some ''ok''
           then (Inl (ControllerError (str_or (msg_of r) ''Failed to fetch vouchers'') ''unifi''), a')
           else (Inr (case resp_data r of
                        None \<Rightarrow> []
                      | Some b \<Rightarrow> (case data_vouchers b of Some d \<Rightarrow> d | None \<Rightarrow> [])), a')))"

text \<open>The body of the \<^verbatim>\<open>try\<close> in \<^verbatim>\<open>fetchRawVouchers\<close>: one attempt on the API in use.\<close>

definition fetchAttempt ::
  "config \<Rightarrow> controller \<Rightarrow> adapter \<Rightarrow> ((error + UniFiVoucher list) \<times> adapter) option" where
  "fetchAttempt cfg ctl a =
     (if useApiKey cfg then fetchVouchersNewApi ctl a else Some (fetchVouchersLegacyApi ctl a))"

text \<open>
  \<^verbatim>\<open>fetchRawVouchers\<close>: log in if needed, make the attempt; when it throws an
  expired session, clear the flag, log in again and call \<^verbatim>\<open>fetchRawVouchers\<close>
  itself; rethrow anything else. The method calls itself, so its result is optional.
\<close>

partial_function (option) fetchRawVouchers ::
  "config \<Rightarrow> controller \<Rightarrow> adapter \<Rightarrow> ((error + UniFiVoucher list) \<times> adapter) option" where
  "fetchRawVouchers cfg ctl a =
     (case ensureLoggedIn cfg ctl a of
        (Inl e, a1) \<Rightarrow> Some (Inl e, a1)
      | (Inr u, a1) \<Rightarrow>
          (case fetchAttempt cfg ctl a1 of
             None \<Rightarrow> None
           | Some (Inr vouchers, a2) \<Rightarrow> Some (Inr vouchers, a2)
           | Some (Inl e, a2) \<Rightarrow>
               (if isSessionExpired e then
                  (case login cfg ctl (a2\<lparr>isLoggedIn := False\<rparr>) of
                     (Inl e', a3) \<Rightarrow> Some (Inl e', a3)
                   | (Inr u', a3) \<Rightarrow> fetchRawVouchers cfg ctl a3)
                else Some (Inl e, a2))))"

declare fetchRawVouchers.simps [code]

text \<open>\<^verbatim>\<open>getVouchers\<close>: the raw vouchers, mapped.\<close>

definition getVouchers ::
  "(string \<Rightarrow> int option) \<Rightarrow> int \<Rightarrow> config \<Rightarrow> controller \<Rightarrow> adapter \<Rightarrow>
     ((error + MappedVoucher list) \<times> adapter) option" where
  "getVouchers parse nowMs cfg ctl a =
     (case fetchRawVouchers cfg ctl a of
        None \<Rightarrow> None
      | Some (Inl e, a') \<Rightarrow> Some (Inl e, a')
      | Some (Inr rawVouchers, a') \<Rightarrow> Some (Inr (mapVouchers parse nowMs rawVouchers), a'))"

definition deleteVoucherNewApi :: "controller \<Rightarrow> string \<Rightarrow> adapter \<Rightarrow> (error + unit) \<times> adapter" where
  "deleteVoucherNewApi ctl voucherId a =
     (case client_request ctl (DeleteVoucherNew (siteId a) voucherId) a of
        (Inl e, a') \<Rightarrow> (Inl e, a')
      | (Inr r, a') \<Rightarrow>
          (if resp_status r \<noteq> 200 \<and> resp_status r \<noteq> 204
           then (Inl (ControllerError
                        (''Failed to delete voucher: HTTP '' @ decimal (resp_status r))
                        ''unifi''), a')
           else (Inr (), a')))"

definition deleteVoucherLegacyApi :: "controller \<Rightarrow> string \<Rightarrow> adapter \<Rightarrow> (error + unit) \<times> adapter" where
  "deleteVoucherLegacyApi ctl voucherId a =
     (case client_request ctl (DeleteVoucherLegacy voucherId) a of
        (Inl e, a') \<Rightarrow> (Inl e, a')
      | (Inr r, a') \<Rightarrow>
          (if rc_of r \<noteq> Some ''ok''
           then (Inl (ControllerError (str_or (msg_of r) ''Failed to delete voucher'') ''unifi''), a')
           else (Inr (), a')))"

text \<open>The body of the \<^verbatim>\<open>try\<close> in \<^verbatim>\<open>deleteVoucher\<close>.\<close>

definition deleteAttempt ::
  "config \<Rightarrow> controller \<Rightarrow> string \<Rightarrow> adapter \<Rightarrow> (error + unit) \<times> adapter" where
  "deleteAttempt cfg ctl voucherId a =
     (if useApiKey cfg then deleteVoucherNewApi ctl voucherId a
      else deleteVoucherLegacyApi ctl voucherId a)"

partial_function (option) deleteVoucher ::
  "config \<Rightarrow> controller \<Rightarrow> string \<Rightarrow> adapter \<Rightarrow> ((error + unit) \<times> adapter) option" where
  "deleteVoucher cfg ctl voucherId a =
     (case ensureLoggedIn cfg ctl a of
        (Inl e, a1) \<Rightarrow> Some (Inl e, a1)
      | (Inr u, a1) \<Rightarrow>
          (case deleteAttempt cfg ctl voucherId a1 of
             (Inr u', a2) \<Rightarrow> Some (Inr (), a2)
           | (Inl e, a2) \<Rightarrow>
               (if isSessionExpired e then
                  (case login cfg ctl (a2\<lparr>isLoggedIn := False\<rparr>) of
                     (Inl e', a3) \<Rightarrow> Some (Inl e', a3)
                   | (Inr u', a3) \<Rightarrow> deleteVoucher cfg ctl voucherId a3)
                else Some (Inl e, a2))))"

declare deleteVoucher.simps [code]

subsection \<open>WLANs\<close>

text \<open>The canonical WLAN, \<^verbatim>\<open>AvailableWLAN\<close>, as the mapping fills it.\<close>

record AvailableWLAN =
  w_ssid :: string
  w_name :: "string option"
  w_enabled :: bool
  w_security :: string
  w_isGuest :: bool

definition mapSecurityMode :: "UniFiWLAN \<Rightarrow> string" where
  "mapSecurityMode wlan =
     (let securityMode =
            js_or_str (js_or_str (wlan_securityMode wlan) (wlan_security wlan)) (wlan_wlanType wlan)
      in if \<not> truthy_str securityMode \<or> securityMode = Some ''open'' then ''open''
         else
           (let normalized = toLowerCase (the securityMode)
            in if str_includes normalized ''wpa3'' then ''wpa3''
               else if str_includes normalized ''wpa2'' then ''wpa2''
               else if str_includes normalized ''wpa'' then ''wpa''
               else if str_includes normalized ''wep'' then ''wep''
               else the securityMode))"

text \<open>\<^verbatim>\<open>a ?? b ?? d\<close> on optional booleans.\<close>

definition nullish :: "bool option \<Rightarrow> bool option \<Rightarrow> bool \<Rightarrow> bool" where
  "nullish a b d = (case a of Some x \<Rightarrow> x | None \<Rightarrow> (case b of Some y \<Rightarrow> y | None \<Rightarrow> d))"

definition mapWLAN :: "UniFiWLAN \<Rightarrow> AvailableWLAN" where
  "mapWLAN wlan =
     \<lparr> w_ssid = str_or (wlan_ssid wlan) (str_or (wlan_name wlan) ''Unknown''),
       w_name = wlan_name wlan,
       w_enabled = nullish (wlan_isEnabled wlan) (wlan_enabled wlan) True,
       w_security = mapSecurityMode wlan,
       w_isGuest = nullish (wlan_isGuest wlan) (wlan_is_guest wlan) False \<rparr>"

text \<open>
  \<^verbatim>\<open>fetchWLANs\<close>: the proxy path first; when it throws, or its body has no truthy
  \<^verbatim>\<open>data\<close>, the direct path, whose errors are thrown.
\<close>

definition fetchWLANsDirect :: "controller \<Rightarrow> adapter \<Rightarrow> (error + UniFiWLAN list) \<times> adapter" where
  "fetchWLANsDirect ctl a =
     (case client_request ctl GetWlanDirect a of
        (Inl e, a') \<Rightarrow> (Inl e, a')
      | (Inr r, a') \<Rightarrow>
          (Inr (case resp_data r of
                  None \<Rightarrow> []
                | Some b \<Rightarrow> (case data_wlans b of Some d \<Rightarrow> d | None \<Rightarrow> [])), a'))"

definition fetchWLANs :: "controller \<Rightarrow> adapter \<Rightarrow> (error + UniFiWLAN list) \<times> adapter" where
  "fetchWLANs ctl a =
     (case client_request ctl GetWlanProxy a of
        (Inl e, a') \<Rightarrow> fetchWLANsDirect ctl a'
      | (Inr r, a') \<Rightarrow>
          (case resp_data r of
             None \<Rightarrow> fetchWLANsDirect ctl a'
           | Some b \<Rightarrow>
               (case data_wlans b of
                  Some d \<Rightarrow> (Inr d, a')
                | None \<Rightarrow> fetchWLANsDirect ctl a')))"

text \<open>
  \<^verbatim>\<open>getAvailableWLANs\<close>: the login, when needed, is before the \<^verbatim>\<open>try\<close>; the fetch
  and the mapping are inside it, and whatever they throw is logged as a warning and
  answered by the empty list.
\<close>

definition getAvailableWLANs ::
  "config \<Rightarrow> controller \<Rightarrow> adapter \<Rightarrow> (error + AvailableWLAN list) \<times> adapter" where
  "getAvailableWLANs cfg ctl a =
     (case ensureLoggedIn cfg ctl a of
        (Inl e, a1) \<Rightarrow> (Inl e, a1)
      | (Inr u, a1) \<Rightarrow>
          (case fetchWLANs ctl a1 of
             (Inr wlans, a2) \<Rightarrow> (Inr (filter w_enabled (map mapWLAN wlans)), a2)
           | (Inl e, a2) \<Rightarrow>
               (Inr [], a2\<lparr>warnings := warnings a2 @ [''Failed to fetch WLANs'']\<rparr>)))"

section \<open>The orchestrator (SyncService)\<close>

text \<open>
  A command of the cloud. \<^verbatim>\<open>payload\<close> is optional, and so is each of its two keys
  that \<^verbatim>\<open>handleDeleteVoucherCommand\<close> reads. The type is the string received.
\<close>

record DeletePayload =
  voucherId :: "string option"
  voucherCode :: "string option"

record VorioCommand =
  cmd_id :: string
  cmd_type :: string
  cmd_payload :: "DeletePayload option"

text \<open>
  The service depends on its two collaborators through their interfaces only
  (\<^verbatim>\<open>ControllerAdapter\<close> and \<^verbatim>\<open>VorioClient\<close>), so each call to one of them is an
  event, recorded in the order made, and its outcome is given by the environment.
\<close>

datatype event =
    GetCommands
  | Ack string
  | Complete string bool "string option"
  | GetVouchers
  | DeleteVoucher string
  | SyncVouchers "MappedVoucher list"
  | CloudDisconnect
  | Logout

text \<open>
  The environment: what each call returns or throws, as a function of the number of
  calls made before it (so the same call may succeed once and fail later) and of its
  arguments. \<open>None\<close> is a call that returns normally; \<open>clock\<close> is \<^verbatim>\<open>new Date()\<close>.
\<close>

record collaborators =
  vorio_getCommands :: "nat \<Rightarrow> error + VorioCommand list"
  vorio_acknowledgeCommand :: "nat \<Rightarrow> string \<Rightarrow> error option"
  vorio_completeCommand :: "nat \<Rightarrow> string \<Rightarrow> bool \<Rightarrow> string option \<Rightarrow> error option"
  vorio_syncVouchers :: "nat \<Rightarrow> MappedVoucher list \<Rightarrow> error + int"
  vorio_disconnect :: "nat \<Rightarrow> error option"
  adapter_getVouchers :: "nat \<Rightarrow> error + MappedVoucher list"
  adapter_deleteVoucher :: "nat \<Rightarrow> string \<Rightarrow> error option"
  adapter_logout :: "nat \<Rightarrow> error option"
  clock :: "nat \<Rightarrow> int"

record AgentStatus =
  connected :: bool
  lastSync :: "int option"
  lastError :: "string option"
  voucherCount :: int

text \<open>
  The fields of \<^verbatim>\<open>SyncService\<close>. A timer handle is \<open>True\<close> when an interval is set
  and \<open>False\<close> when it is \<^verbatim>\<open>undefined\<close>. \<open>trace\<close> is the calls made so far.
\<close>

record service =
  isRunning :: bool
  syncInterval :: bool
  commandPollInterval :: bool
  agent_status :: AgentStatus
  trace :: "event list"

definition emit :: "event \<Rightarrow> service \<Rightarrow> service" where
  "emit ev s = s\<lparr>trace := trace s @ [ev]\<rparr>"

text \<open>\<^verbatim>\<open>performSync\<close>: fetch, upload, then update the status; either call may throw.\<close>

definition performSync :: "collaborators \<Rightarrow> service \<Rightarrow> (error + unit) \<times> service" where
  "performSync env s =
     (case adapter_getVouchers env (length (trace s)) of
        Inl e \<Rightarrow> (Inl e, emit GetVouchers s)
      | Inr vouchers \<Rightarrow>
          (let s1 = emit GetVouchers s in
           case vorio_syncVouchers env (length (trace s1)) vouchers of
             Inl e \<Rightarrow> (Inl e, emit (SyncVouchers vouchers) s1)
           | Inr syncedCount \<Rightarrow>
               (let s2 = emit (SyncVouchers vouchers) s1 in
                (Inr (), s2\<lparr>agent_status := (agent_status s2)
                     \<lparr>voucherCount := syncedCount,
                      lastSync := Some (clock env (length (trace s2))),
                      lastError := None\<rparr>\<rparr>))))"

definition handleSyncNowCommand :: "collaborators \<Rightarrow> service \<Rightarrow> (error + unit) \<times> service" where
  "handleSyncNowCommand env s = performSync env s"

text \<open>A call to \<^verbatim>\<open>adapter.deleteVoucher\<close>.\<close>

definition call_deleteVoucher ::
  "collaborators \<Rightarrow> string \<Rightarrow> service \<Rightarrow> (error + unit) \<times> service" where
  "call_deleteVoucher env vid s =
     (case adapter_deleteVoucher env (length (trace s)) vid of
        Some e \<Rightarrow> (Inl e, emit (DeleteVoucher vid) s)
      | None \<Rightarrow> (Inr (), emit (DeleteVoucher vid) s))"

text \<open>
  \<^verbatim>\<open>handleDeleteVoucherCommand\<close>: by id when the payload has a truthy \<^verbatim>\<open>voucherId\<close>,
  else by code among freshly fetched vouchers, else nothing (a warning is logged).
\<close>

definition handleDeleteVoucherCommand ::
  "collaborators \<Rightarrow> VorioCommand \<Rightarrow> service \<Rightarrow> (error + unit) \<times> service" where
  "handleDeleteVoucherCommand env command s =
     (let pid = (case cmd_payload command of None \<Rightarrow> None | Some p \<Rightarrow> voucherId p);
          pcode = (case cmd_payload command of None \<Rightarrow> None | Some p \<Rightarrow> voucherCode p)
      in if truthy_str pid then call_deleteVoucher env (the pid) s
         else if truthy_str pcode then
           (case adapter_getVouchers env (length (trace s)) of
              Inl e \<Rightarrow> (Inl e, emit GetVouchers s)
            | Inr vouchers \<Rightarrow>
                (case find (\<lambda>v. m_code v = the pcode) vouchers of
                   Some voucher \<Rightarrow> call_deleteVoucher env (m_id voucher) (emit GetVouchers s)
                 | None \<Rightarrow> (Inr (), emit GetVouchers s)))
         else (Inr (), s))"

text \<open>
  \<^verbatim>\<open>stop\<close>: nothing when not running; else the flag is cleared, both intervals are
  cleared, the cloud is told and the adapter logged out (what they throw is ignored),
  and the status is marked disconnected. It never throws.
\<close>

definition stop :: "collaborators \<Rightarrow> service \<Rightarrow> service" where
  "stop env s =
     (if \<not> isRunning s then s
      else
        (let s1 = s\<lparr>isRunning := False, commandPollInterval := False, syncInterval := False\<rparr>;
             s2 = (case vorio_disconnect env (length (trace s1)) of
                     None \<Rightarrow> emit CloudDisconnect s1
                   | Some e \<Rightarrow> emit CloudDisconnect s1);
             s3 = (case adapter_logout env (length (trace s2)) of
                     None \<Rightarrow> emit Logout s2
                   | Some e \<Rightarrow> emit Logout s2)
         in s3\<lparr>agent_status := (agent_status s3)\<lparr>connected := False\<rparr>\<rparr>))"

definition handleDisconnectCommand :: "collaborators \<Rightarrow> service \<Rightarrow> (error + unit) \<times> service" where
  "handleDisconnectCommand env s = (Inr (), stop env s)"

text \<open>
  The \<^verbatim>\<open>switch\<close> of \<^verbatim>\<open>processCommand\<close>. It throws what the handler throws; otherwise
  it either falls out of the switch (\<open>Continue\<close>) or, for \<^verbatim>\<open>disconnect\<close>, returns from
  \<^verbatim>\<open>processCommand\<close> (\<open>Return\<close>). An unknown type logs a warning and falls out.
\<close>

datatype flow = Continue | Return

definition dispatch ::
  "collaborators \<Rightarrow> VorioCommand \<Rightarrow> service \<Rightarrow> (error + flow) \<times> service" where
  "dispatch env command s =
     (if cmd_type command = ''sync_now'' then
        (case handleSyncNowCommand env s of
           (Inl e, s') \<Rightarrow> (Inl e, s') | (Inr u, s') \<Rightarrow> (Inr Continue, s'))
      else if cmd_type command = ''delete_voucher'' then
        (case handleDeleteVoucherCommand env command s of
           (Inl e, s') \<Rightarrow> (Inl e, s') | (Inr u, s') \<Rightarrow> (Inr Continue, s'))
      else if cmd_type command = ''disconnect'' then
        (case handleDisconnectCommand env s of
           (Inl e, s') \<Rightarrow> (Inl e, s') | (Inr u, s') \<Rightarrow> (Inr Return, s'))
      else (Inr Continue, s))"

text \<open>A call to \<^verbatim>\<open>vorioClient.completeCommand\<close>.\<close>

definition call_completeCommand ::
  "collaborators \<Rightarrow> string \<Rightarrow> bool \<Rightarrow> string option \<Rightarrow> service \<Rightarrow> (error + unit) \<times> service" where
  "call_completeCommand env i success msg s =
     (case vorio_completeCommand env (length (trace s)) i success msg of
        Some e \<Rightarrow> (Inl e, emit (Complete i success msg) s)
      | None \<Rightarrow> (Inr (), emit (Complete i success msg) s))"

text \<open>
  \<^verbatim>\<open>processCommand\<close>. The acknowledgement is outside the \<^verbatim>\<open>try\<close>: what it throws
  leaves the function. The switch and the completion with \<^verbatim>\<open>true\<close> are inside: what
  either throws is caught and reported by a completion with \<^verbatim>\<open>false\<close> and the
  message, and what that call throws leaves the function.
\<close>

definition processCommand ::
  "collaborators \<Rightarrow> VorioCommand \<Rightarrow> service \<Rightarrow> (error + unit) \<times> service" where
  "processCommand env command s =
     (case vorio_acknowledgeCommand env (length (trace s)) (cmd_id command) of
        Some e \<Rightarrow> (Inl e, emit (Ack (cmd_id command)) s)
      | None \<Rightarrow>
          (case dispatch env command (emit (Ack (cmd_id command)) s) of
             (Inr Return, s1) \<Rightarrow> (Inr (), s1)
           | (Inr Continue, s1) \<Rightarrow>
               (case call_completeCommand env (cmd_id command) True None s1 of
                  (Inr u, s2) \<Rightarrow> (Inr (), s2)
                | (Inl e, s2) \<Rightarrow>
                    call_completeCommand env (cmd_id command) False (Some (getErrorMessage e)) s2)
           | (Inl e, s1) \<Rightarrow>
               call_completeCommand env (cmd_id command) False (Some (getErrorMessage e)) s1))"

text \<open>The \<^verbatim>\<open>for\<close> loop of \<^verbatim>\<open>processCommands\<close>: a command that throws ends the loop.\<close>

fun processAll ::
  "collaborators \<Rightarrow> VorioCommand list \<Rightarrow> service \<Rightarrow> (error + unit) \<times> service" where
  "processAll env [] s = (Inr (), s)"
| "processAll env (command # rest) s =
     (case processCommand env command s of
        (Inl e, s') \<Rightarrow> (Inl e, s')
      | (Inr u, s') \<Rightarrow> processAll env rest s')"

definition processCommands :: "collaborators \<Rightarrow> service \<Rightarrow> (error + unit) \<times> service" where
  "processCommands env s =
     (case vorio_getCommands env (length (trace s)) of
        Inl e \<Rightarrow> (Inl e, emit GetCommands s)
      | Inr commands \<Rightarrow>
          (if commands = [] then (Inr (), emit GetCommands s)
           else processAll env commands (emit GetCommands s)))"

text \<open>
  One firing of the command-poll interval: skipped when the service is not running;
  what \<^verbatim>\<open>processCommands\<close> throws is logged and dropped.
\<close>

definition commandPollTick :: "collaborators \<Rightarrow> service \<Rightarrow> service" where
  "commandPollTick env s = (if \<not> isRunning s then s else snd (processCommands env s))"

text \<open>The calls made between two states of the service.\<close>

definition emitted :: "service \<Rightarrow> service \<Rightarrow> event list" where
  "emitted s s' = drop (length (trace s)) (trace s')"

section \<open>Predicates on traces and states used in the statements\<close>

fun isAck :: "event \<Rightarrow> bool" where
  "isAck (Ack i) = True"
| "isAck _ = False"

fun isComplete :: "event \<Rightarrow> bool" where
  "isComplete (Complete i b m) = True"
| "isComplete _ = False"

definition stopped :: "service \<Rightarrow> bool" where
  "stopped s = (\<not> isRunning s \<and> \<not> syncInterval s \<and> \<not> commandPollInterval s \<and>
                \<not> connected (agent_status s))"

definition quiet :: "event list \<Rightarrow> bool" where
  "quiet evs = (\<forall>ev \<in> set evs. \<not> isAck ev \<and> \<not> isComplete ev)"

text \<open>What a handler may do to the service: append calls that are neither
  acknowledgements nor completions, and stop it.\<close>

definition handled :: "service \<Rightarrow> service \<Rightarrow> bool" where
  "handled s s' =
     ((\<exists>evs. trace s' = trace s @ evs \<and> quiet evs) \<and>
      (isRunning s' \<longrightarrow> isRunning s) \<and>
      (isRunning s \<or> stopped s \<longrightarrow> isRunning s' \<or> stopped s') \<and>
      (stopped s \<longrightarrow> stopped s'))"

text \<open>What processing one command may do: its acknowledgement first, then calls
  that are neither acknowledgements nor completions, then completions of that
  command only, and none for a \<^verbatim>\<open>disconnect\<close>.\<close>

definition reported :: "VorioCommand \<Rightarrow> service \<Rightarrow> service \<Rightarrow> bool" where
  "reported c s s' =
     ((\<exists>evs comps. trace s' = trace s @ Ack (cmd_id c) # evs @ comps \<and> quiet evs \<and>
         (\<forall>ev \<in> set comps. \<exists>b m. ev = Complete (cmd_id c) b m) \<and>
         (cmd_type c = ''disconnect'' \<longrightarrow> comps = [])) \<and>
      (isRunning s' \<longrightarrow> isRunning s) \<and>
      (isRunning s \<or> stopped s \<longrightarrow> isRunning s' \<or> stopped s') \<and>
      (stopped s \<longrightarrow> stopped s'))"

text \<open>What a batch may do: the calls it appends, and the flags.\<close>

definition batch_ok :: "VorioCommand list \<Rightarrow> service \<Rightarrow> service \<Rightarrow> bool" where
  "batch_ok cmds s s' =
     ((\<exists>evs. trace s' = trace s @ evs \<and>
         (\<forall>i b m. Complete i b m \<in> set evs \<longrightarrow>
            (\<exists>c \<in> set cmds. cmd_id c = i \<and> cmd_type c \<noteq> ''disconnect''))) \<and>
      (isRunning s' \<longrightarrow> isRunning s) \<and>
      (isRunning s \<or> stopped s \<longrightarrow> isRunning s' \<or> stopped s') \<and>
      (stopped s \<longrightarrow> stopped s'))"

section \<open>Example inputs\<close>

text \<open>
  A date parser that accepts no string (none of the examples carries a date string),
  and raw records: one with both variants of several fields, one whose modern
  variants are all 0 or empty beside legacy values, one with legacy quota 0 and one
  used more often than its quota allows.
\<close>

definition never_a_date :: "string \<Rightarrow> int option" where
  "never_a_date s = None"

definition both_variants :: UniFiVoucher where
  "both_variants =
     (blank ''12345'')\<lparr> legacy_id := Some ''old'', new_id := Some ''new'',
        duration := Some 60, timeLimitMinutes := Some 0,
        quota := Some 1, authorizedGuestLimit := Some 5,
        used := Some 3, authorizedGuestCount := Some 0,
        qos_rate_max_up := Some 100, txRateLimitKbps := Some 200 \<rparr>"

definition falsy_modern :: UniFiVoucher where
  "falsy_modern =
     (blank ''12345'')\<lparr> legacy_id := Some ''old'', new_id := Some [],
        create_time := Some 1705312200, createdAt := Some [],
        start_time := Some 1705312300, activatedAt := Some [],
        duration := Some 60, timeLimitMinutes := Some 0,
        quota := Some 3, authorizedGuestLimit := Some 0,
        used := Some 2, authorizedGuestCount := Some 0,
        qos_rate_max_up := Some 100, txRateLimitKbps := Some 0,
        qos_rate_max_down := Some 50, rxRateLimitKbps := Some 0,
        voucher_note := Some ''vip'', name := Some [] \<rparr>"

definition unlimited_used :: UniFiVoucher where
  "unlimited_used = (blank ''12345'')\<lparr>quota := Some 0, used := Some 4\<rparr>"

definition overused :: UniFiVoucher where
  "overused = (blank ''12345'')\<lparr>quota := Some 2, used := Some 5\<rparr>"

text \<open>
  A running service, and two environments: in \<open>delete_fails\<close> the controller rejects
  every deletion and the cloud answers every call; in \<open>cloud_lost\<close> the cloud
  moreover stops answering acknowledgements and completions from the seventh call on.
\<close>

definition service0 :: service where
  "service0 =
     \<lparr> isRunning = True, syncInterval = True, commandPollInterval = True,
       agent_status = \<lparr> connected = True, lastSync = None, lastError = None, voucherCount = 0 \<rparr>,
       trace = [] \<rparr>"

definition delete_fails :: collaborators where
  "delete_fails =
     \<lparr> vorio_getCommands = (\<lambda>n. Inr []),
       vorio_acknowledgeCommand = (\<lambda>n i. None),
       vorio_completeCommand = (\<lambda>n i b m. None),
       vorio_syncVouchers = (\<lambda>n vs. Inr (int (length vs))),
       vorio_disconnect = (\<lambda>n. None),
       adapter_getVouchers = (\<lambda>n. Inr []),
       adapter_deleteVoucher = (\<lambda>n vid. Some (ControllerError ''api.err.NotFound'' ''unifi'')),
       adapter_logout = (\<lambda>n. None),
       clock = (\<lambda>n. 0) \<rparr>"

definition cloud_lost :: collaborators where
  "cloud_lost =
     delete_fails
       \<lparr> vorio_acknowledgeCommand :=
           (\<lambda>n i. if n < 6 then None else Some (VorioApiError ''timeout'' None)),
         vorio_completeCommand :=
           (\<lambda>n i b m. if n < 6 then None else Some (VorioApiError ''timeout'' None)) \<rparr>"

text \<open>
  In \<open>ack_lost\<close> the cloud rejects every acknowledgement.
\<close>

definition ack_lost :: collaborators where
  "ack_lost =
     delete_fails
       \<lparr> vorio_acknowledgeCommand := (\<lambda>n i. Some (VorioApiError ''timeout'' None)) \<rparr>"

definition cmd_sync :: "string \<Rightarrow> VorioCommand" where
  "cmd_sync i = \<lparr> cmd_id = i, cmd_type = ''sync_now'', cmd_payload = None \<rparr>"

definition cmd_delete :: "string \<Rightarrow> string \<Rightarrow> VorioCommand" where
  "cmd_delete i v =
     \<lparr> cmd_id = i, cmd_type = ''delete_voucher'',
       cmd_payload = Some \<lparr> voucherId = Some v, voucherCode = None \<rparr> \<rparr>"

definition cmd_disconnect :: "string \<Rightarrow> VorioCommand" where
  "cmd_disconnect i = \<lparr> cmd_id = i, cmd_type = ''disconnect'', cmd_payload = None \<rparr>"

definition batch_mid_failure :: "VorioCommand list" where
  "batch_mid_failure = [cmd_sync ''c1'', cmd_delete ''c2'' ''v9'', cmd_sync ''c3'']"

definition batch_with_disconnect :: "VorioCommand list" where
  "batch_with_disconnect = [cmd_sync ''c1'', cmd_delete ''c2'' ''v9'', cmd_disconnect ''c3'']"

text \<open>
  A session-based adapter before and after its first login, and controllers:
  \<open>refusing\<close> refuses every connection; \<open>expiring k\<close> answers the voucher requests
  among the first \<open>k\<close> requests, and every WLAN request, with status 401, and accepts
  everything else; \<open>session_lost\<close> answers voucher requests with 401 and refuses
  every other connection. \<open>after rs\<close> is the logged-in adapter that has made the
  requests \<open>rs\<close>.
\<close>

definition config0 :: config where
  "config0 = \<lparr> unifi_host = ''192.168.1.1'', unifi_port = 443, unifi_site = ''default'',
               useApiKey = False \<rparr>"

definition adapter0 :: adapter where
  "adapter0 = \<lparr> isLoggedIn = False, siteId = None, requests = [], warnings = [] \<rparr>"

definition adapter1 :: adapter where
  "adapter1 = adapter0\<lparr>isLoggedIn := True\<rparr>"

definition refusing :: controller where
  "refusing = (\<lambda>n req. NetworkError (Some ''ECONNREFUSED'') ''connect ECONNREFUSED 192.168.1.1:443'')"

definition plain :: "nat \<Rightarrow> response" where
  "plain st = \<lparr> resp_status = st, resp_location = None, resp_data = None \<rparr>"

definition voucher_list :: "UniFiVoucher list \<Rightarrow> response" where
  "voucher_list vs =
     \<lparr> resp_status = 200, resp_location = None,
       resp_data = Some \<lparr> meta_rc = Some ''ok'', meta_msg = None, totalCount = None,
                          data_sites = None, data_vouchers = Some vs, data_wlans = None \<rparr> \<rparr>"

definition expiring :: "nat \<Rightarrow> controller" where
  "expiring k = (\<lambda>n req.
      case req of
        GetVouchersLegacy \<Rightarrow> if n < k then Response (plain 401) else Response (voucher_list [blank ''12345''])
      | DeleteVoucherLegacy v \<Rightarrow> if n < k then Response (plain 401) else Response (voucher_list [])
      | GetWlanProxy \<Rightarrow> Response (plain 401)
      | GetWlanDirect \<Rightarrow> Response (plain 401)
      | _ \<Rightarrow> Response (plain 200))"

definition session_lost :: controller where
  "session_lost = (\<lambda>n req.
      case req of
        GetVouchersLegacy \<Rightarrow> Response (plain 401)
      | DeleteVoucherLegacy v \<Rightarrow> Response (plain 401)
      | _ \<Rightarrow> NetworkError (Some ''ECONNREFUSED'') ''connect ECONNREFUSED 192.168.1.1:443'')"

definition expired_error :: error where
  "expired_error =
     AxiosError (Some 401) (Some ''ERR_BAD_REQUEST'') ''Request failed with status code 401''"

definition refused_error :: error where
  "refused_error =
     ConnectionError
       (''Connection refused. The UniFi Controller at 192.168.1.1:443 is not accepting connections. '' @
        ''Please verify the controller is running and the host/port are correct.'')
       ''unifi'' (Some ''192.168.1.1'') (Some 443) (Some ''ECONNREFUSED'')"

definition after :: "request list \<Rightarrow> adapter" where
  "after rs = \<lparr> isLoggedIn = True, siteId = None, requests = rs, warnings = [] \<rparr>"

text \<open>
  A key-based adapter and a controller with one site and three vouchers, which it
  serves in a page of two and a page of one.
\<close>

definition config_key :: config where
  "config_key = config0\<lparr>useApiKey := True\<rparr>"

definition site_list :: response where
  "site_list =
     \<lparr> resp_status = 200, resp_location = None,
       resp_data = Some \<lparr> meta_rc = None, meta_msg = None, totalCount = None,
                          data_sites = Some [\<lparr> site_name = Some ''default'',
                                               site_desc = Some ''Default'',
                                               site_id = Some ''site-1'' \<rparr>],
                          data_vouchers = None, data_wlans = None \<rparr> \<rparr>"

definition voucher_page :: "UniFiVoucher list \<Rightarrow> nat \<Rightarrow> response" where
  "voucher_page vs n =
     \<lparr> resp_status = 200, resp_location = None,
       resp_data = Some \<lparr> meta_rc = None, meta_msg = None, totalCount = Some n,
                          data_sites = None, data_vouchers = Some vs, data_wlans = None \<rparr> \<rparr>"

definition paging :: controller where
  "paging = (\<lambda>n req.
      case req of
        GetSites \<Rightarrow> Response site_list
      | GetVouchersNew sid offset \<Rightarrow>
          Response (if offset = 0 then voucher_page [blank ''11111'', blank ''22222''] 3
                    else voucher_page [blank ''33333''] 3)
      | _ \<Rightarrow> Response (plain 200))"

text \<open>
  A controller that redirects the probe: \<open>redirect_once\<close> answers the first request
  with a redirect to the login page and accepts everything after it.
\<close>

definition redirect_to_login :: response where
  "redirect_to_login = \<lparr> resp_status = 302, resp_location = Some ''/login'', resp_data = None \<rparr>"

definition redirect_once :: controller where
  "redirect_once = (\<lambda>n req. if n = 0 then Response redirect_to_login else Response (plain 200))"

section \<open>Voucher normalisation: properties\<close>

text \<open>
  C2. An \<^verbatim>\<open>expired\<close> flag that is \<^verbatim>\<open>true\<close> gives the status \<^verbatim>\<open>EXPIRED\<close>, whatever
  the record's status, used and quota are. Otherwise, for a record without a status,
  the status follows the quota and used count of the mapped voucher: quota 1 and
  used at least 1 give \<^verbatim>\<open>USED\<close>, quota 1 and used 0 give \<^verbatim>\<open>VALID_ONE\<close>, a quota above
  1 gives \<^verbatim>\<open>VALID_MULTI\<close>.
\<close>

theorem derived_status:
  "(expired v = Some True \<longrightarrow> m_status (mapVoucher parse nowMs v) = ''EXPIRED'') \<and>
   (expired v \<noteq> Some True \<and> status v = None \<longrightarrow>
      (m_quota (mapVoucher parse nowMs v) = 1 \<and> m_used (mapVoucher parse nowMs v) \<ge> 1
         \<longrightarrow> m_status (mapVoucher parse nowMs v) = ''USED'') \<and>
      (m_quota (mapVoucher parse nowMs v) = 1 \<and> m_used (mapVoucher parse nowMs v) = 0
         \<longrightarrow> m_status (mapVoucher parse nowMs v) = ''VALID_ONE'') \<and>
      (m_quota (mapVoucher parse nowMs v) > 1
         \<longrightarrow> m_status (mapVoucher parse nowMs v) = ''VALID_MULTI''))"
  by (simp add: mapVoucher_def map_status_def)

theorem derived_status_witness:
  "m_status (mapVoucher never_a_date 0 ((blank ''a'')\<lparr>expired := Some True, status := Some ''VALID_ONE'', quota := Some 1, used := Some 0\<rparr>)) = ''EXPIRED''
   \<and> m_status (mapVoucher never_a_date 0 ((blank ''b'')\<lparr>quota := Some 1, used := Some 1\<rparr>)) = ''USED''
   \<and> m_status (mapVoucher never_a_date 0 ((blank ''c'')\<lparr>quota := Some 1, used := Some 0\<rparr>)) = ''VALID_ONE''
   \<and> m_status (mapVoucher never_a_date 0 ((blank ''d'')\<lparr>quota := Some 5, used := Some 2\<rparr>)) = ''VALID_MULTI''"
  using derived_status [of "(blank ''a'')\<lparr>expired := Some True, status := Some ''VALID_ONE'', quota := Some 1, used := Some 0\<rparr>" never_a_date 0]
        derived_status [of "(blank ''b'')\<lparr>quota := Some 1, used := Some 1\<rparr>" never_a_date 0]
        derived_status [of "(blank ''c'')\<lparr>quota := Some 1, used := Some 0\<rparr>" never_a_date 0]
        derived_status [of "(blank ''d'')\<lparr>quota := Some 5, used := Some 2\<rparr>" never_a_date 0]
  by (simp add: blank_def mapVoucher_def map_quota_def map_used_def)

text \<open>
  A record with \<^verbatim>\<open>timeLimitMinutes = 0\<close> beside \<^verbatim>\<open>duration = 60\<close>, and
  \<^verbatim>\<open>authorizedGuestCount = 0\<close> beside \<^verbatim>\<open>used = 3\<close>: the mapped duration and used
  count are the legacy values. And a record with \<^verbatim>\<open>id = ''\<close> beside \<^verbatim>\<open>_id = 'old'\<close>:
  the mapped id is the legacy one.
\<close>

theorem modern_preferred_counterexample:
  "timeLimitMinutes both_variants = Some 0 \<and> duration both_variants = Some 60 \<and>
   m_duration (mapVoucher never_a_date 0 both_variants) = 60 \<and>
   authorizedGuestCount both_variants = Some 0 \<and> used both_variants = Some 3 \<and>
   m_used (mapVoucher never_a_date 0 both_variants) = 3 \<and>
   new_id falsy_modern = Some [] \<and> legacy_id falsy_modern = Some ''old'' \<and>
   m_id (mapVoucher never_a_date 0 falsy_modern) = ''old''"
  by (simp add: both_variants_def falsy_modern_def blank_def mapVoucher_def map_duration_def
      map_used_def map_id_def)

text \<open>
  C3, as the code has it. When a record has the modern variant of a field and its
  value is truthy (a number other than 0, a string other than the empty one), the
  mapped voucher has the modern value, whatever the legacy variant holds; the two
  timestamps are the modern date strings converted to seconds. A modern value that
  is 0 or the empty string counts as absent: the duration, the used count, the two
  rate limits and the note then take the legacy value, and the id, the quota, the
  creation time and the start time take the legacy value when that is truthy.
\<close>

theorem modern_preferred_when_truthy:
  "(timeLimitMinutes v = Some n \<and> n \<noteq> 0 \<longrightarrow> m_duration (mapVoucher parse nowMs v) = n) \<and>
   (authorizedGuestLimit v = Some n \<and> n \<noteq> 0 \<longrightarrow> m_quota (mapVoucher parse nowMs v) = n) \<and>
   (authorizedGuestCount v = Some n \<and> n \<noteq> 0 \<longrightarrow> m_used (mapVoucher parse nowMs v) = n) \<and>
   (txRateLimitKbps v = Some n \<and> n \<noteq> 0 \<longrightarrow> m_qosRateMaxUp (mapVoucher parse nowMs v) = Some n) \<and>
   (rxRateLimitKbps v = Some n \<and> n \<noteq> 0 \<longrightarrow> m_qosRateMaxDown (mapVoucher parse nowMs v) = Some n) \<and>
   (new_id v = Some s \<and> s \<noteq> [] \<longrightarrow> m_id (mapVoucher parse nowMs v) = s) \<and>
   (name v = Some s \<and> s \<noteq> [] \<longrightarrow> m_note (mapVoucher parse nowMs v) = Some s) \<and>
   (createdAt v = Some s \<and> s \<noteq> [] \<longrightarrow>
      m_createTime (mapVoucher parse nowMs v) = date_seconds parse s) \<and>
   (activatedAt v = Some s \<and> s \<noteq> [] \<longrightarrow>
      m_startTime (mapVoucher parse nowMs v) = Some (date_seconds parse s)) \<and>
   (timeLimitMinutes v = Some 0 \<and> duration v = Some k \<longrightarrow> m_duration (mapVoucher parse nowMs v) = k) \<and>
   (authorizedGuestLimit v = Some 0 \<and> quota v = Some k \<and> k \<noteq> 0 \<longrightarrow>
      m_quota (mapVoucher parse nowMs v) = k) \<and>
   (authorizedGuestCount v = Some 0 \<and> used v = Some k \<longrightarrow> m_used (mapVoucher parse nowMs v) = k) \<and>
   (txRateLimitKbps v = Some 0 \<longrightarrow>
      m_qosRateMaxUp (mapVoucher parse nowMs v) = qos_rate_max_up v) \<and>
   (rxRateLimitKbps v = Some 0 \<longrightarrow>
      m_qosRateMaxDown (mapVoucher parse nowMs v) = qos_rate_max_down v) \<and>
   (name v = Some [] \<longrightarrow> m_note (mapVoucher parse nowMs v) = voucher_note v) \<and>
   (new_id v = Some [] \<and> legacy_id v = Some t \<and> t \<noteq> [] \<longrightarrow>
      m_id (mapVoucher parse nowMs v) = t) \<and>
   (createdAt v = Some [] \<and> create_time v = Some k \<and> k \<noteq> 0 \<longrightarrow>
      m_createTime (mapVoucher parse nowMs v) = Num k) \<and>
   (activatedAt v = Some [] \<and> start_time v = Some k \<and> k \<noteq> 0 \<longrightarrow>
      m_startTime (mapVoucher parse nowMs v) = Some (Num k))"
  by (simp add: mapVoucher_def map_duration_def map_quota_def map_used_def map_id_def
      map_createTime_def map_startTime_def js_or_num_def js_or_str_def)

theorem modern_preferred_when_truthy_witness:
  "m_quota (mapVoucher never_a_date 0 both_variants) = 5 \<and>
   m_qosRateMaxUp (mapVoucher never_a_date 0 both_variants) = Some 200 \<and>
   m_id (mapVoucher never_a_date 0 both_variants) = ''new'' \<and>
   m_duration (mapVoucher never_a_date 0 both_variants) = 60 \<and>
   m_used (mapVoucher never_a_date 0 both_variants) = 3 \<and>
   m_quota (mapVoucher never_a_date 0 falsy_modern) = 3 \<and>
   m_qosRateMaxUp (mapVoucher never_a_date 0 falsy_modern) = Some 100 \<and>
   m_qosRateMaxDown (mapVoucher never_a_date 0 falsy_modern) = Some 50 \<and>
   m_note (mapVoucher never_a_date 0 falsy_modern) = Some ''vip'' \<and>
   m_id (mapVoucher never_a_date 0 falsy_modern) = ''old'' \<and>
   m_createTime (mapVoucher never_a_date 0 falsy_modern) = Num 1705312200 \<and>
   m_startTime (mapVoucher never_a_date 0 falsy_modern) = Some (Num 1705312300)"
proof -
  have b: "authorizedGuestLimit both_variants = Some 5 \<and> (5::int) \<noteq> 0 \<and>
           txRateLimitKbps both_variants = Some 200 \<and> (200::int) \<noteq> 0 \<and>
           new_id both_variants = Some ''new'' \<and> ''new'' \<noteq> [] \<and>
           timeLimitMinutes both_variants = Some 0 \<and> duration both_variants = Some 60 \<and>
           authorizedGuestCount both_variants = Some 0 \<and> used both_variants = Some 3"
    by (simp add: both_variants_def blank_def)
  have f: "authorizedGuestLimit falsy_modern = Some 0 \<and> quota falsy_modern = Some 3 \<and>
           (3::int) \<noteq> 0 \<and>
           txRateLimitKbps falsy_modern = Some 0 \<and> qos_rate_max_up falsy_modern = Some 100 \<and>
           rxRateLimitKbps falsy_modern = Some 0 \<and> qos_rate_max_down falsy_modern = Some 50 \<and>
           name falsy_modern = Some [] \<and> voucher_note falsy_modern = Some ''vip'' \<and>
           new_id falsy_modern = Some [] \<and> legacy_id falsy_modern = Some ''old'' \<and>
           ''old'' \<noteq> [] \<and>
           createdAt falsy_modern = Some [] \<and> create_time falsy_modern = Some 1705312200 \<and>
           (1705312200::int) \<noteq> 0 \<and>
           activatedAt falsy_modern = Some [] \<and> start_time falsy_modern = Some 1705312300 \<and>
           (1705312300::int) \<noteq> 0"
    by (simp add: falsy_modern_def blank_def)
  note T = modern_preferred_when_truthy
  from b T [where v = both_variants and n = 5 and s = "''new''" and k = 60
              and parse = never_a_date and nowMs = 0]
  have 1: "m_quota (mapVoucher never_a_date 0 both_variants) = 5 \<and>
           m_id (mapVoucher never_a_date 0 both_variants) = ''new'' \<and>
           m_duration (mapVoucher never_a_date 0 both_variants) = 60"
    by simp
  from b T [where v = both_variants and n = 200 and k = 3
              and parse = never_a_date and nowMs = 0]
  have 2: "m_qosRateMaxUp (mapVoucher never_a_date 0 both_variants) = Some 200 \<and>
           m_used (mapVoucher never_a_date 0 both_variants) = 3"
    by simp
  from f T [where v = falsy_modern and k = 3 and t = "''old''"
              and parse = never_a_date and nowMs = 0]
  have 3: "m_quota (mapVoucher never_a_date 0 falsy_modern) = 3 \<and>
           m_qosRateMaxUp (mapVoucher never_a_date 0 falsy_modern) = Some 100 \<and>
           m_qosRateMaxDown (mapVoucher never_a_date 0 falsy_modern) = Some 50 \<and>
           m_note (mapVoucher never_a_date 0 falsy_modern) = Some ''vip'' \<and>
           m_id (mapVoucher never_a_date 0 falsy_modern) = ''old''"
    by simp
  from f T [where v = falsy_modern and k = 1705312200 and parse = never_a_date and nowMs = 0]
  have 4: "m_createTime (mapVoucher never_a_date 0 falsy_modern) = Num 1705312200"
    by simp
  from f T [where v = falsy_modern and k = 1705312300 and parse = never_a_date and nowMs = 0]
  have 5: "m_startTime (mapVoucher never_a_date 0 falsy_modern) = Some (Num 1705312300)"
    by simp
  from 1 2 3 4 5 show ?thesis by blast
qed




text \<open>A record with \<^verbatim>\<open>quota = 2\<close> and \<^verbatim>\<open>used = 5\<close>: the mapped used count exceeds the mapped quota.\<close>

theorem used_le_quota_counterexample:
  "quota overused = Some 2 \<and>
   m_quota (mapVoucher never_a_date 0 overused) = 2 \<and>
   m_used (mapVoucher never_a_date 0 overused) = 5 \<and>
   \<not> m_used (mapVoucher never_a_date 0 overused) \<le> m_quota (mapVoucher never_a_date 0 overused)"
  by (simp add: overused_def blank_def mapVoucher_def map_quota_def map_used_def)

text \<open>
  C7, as the code has it. The mapping copies used and quota and does not compare
  them: for a legacy record with a quota other than 0, the mapped used count is at
  most the mapped quota exactly when that holds in the raw record. A status
  \<^verbatim>\<open>EXPIRED\<close> reported by the controller, as the flag or as the status string, is the
  mapped status.
\<close>

theorem used_quota_copied_expired_authoritative:
  "(expired v = Some True \<or> (status v = Some ''EXPIRED'') \<longrightarrow>
      m_status (mapVoucher parse nowMs v) = ''EXPIRED'') \<and>
   (authorizedGuestLimit v = None \<and> authorizedGuestCount v = None \<and>
    quota v = Some q \<and> used v = Some u \<and> q \<noteq> 0 \<longrightarrow>
      m_quota (mapVoucher parse nowMs v) = q \<and> m_used (mapVoucher parse nowMs v) = u \<and>
      (m_used (mapVoucher parse nowMs v) \<le> m_quota (mapVoucher parse nowMs v) \<longleftrightarrow> u \<le> q))"
  by (simp add: mapVoucher_def map_status_def map_quota_def map_used_def js_or_num_def)


theorem used_quota_copied_expired_authoritative_witness:
  "m_status (mapVoucher never_a_date 0 ((blank ''12345'')\<lparr>status := Some ''EXPIRED'', quota := Some 1, used := Some 0\<rparr>)) = ''EXPIRED'' \<and>
   m_quota (mapVoucher never_a_date 0 overused) = 2 \<and>
   m_used (mapVoucher never_a_date 0 overused) = 5"
proof -
  have h: "authorizedGuestLimit overused = None \<and> authorizedGuestCount overused = None \<and>
           quota overused = Some 2 \<and> used overused = Some 5 \<and> (2::int) \<noteq> 0"
    by (simp add: overused_def blank_def)
  have e: "status ((blank ''12345'')\<lparr>status := Some ''EXPIRED'', quota := Some 1, used := Some 0\<rparr>)
             = Some ''EXPIRED''"
    by simp
  from h e
    used_quota_copied_expired_authoritative [of overused never_a_date 0 2 5]
    used_quota_copied_expired_authoritative
      [of "(blank ''12345'')\<lparr>status := Some ''EXPIRED'', quota := Some 1, used := Some 0\<rparr>" never_a_date 0 1 0]
  show ?thesis by blast
qed

text \<open>
  C10. A legacy record (no \<^verbatim>\<open>authorizedGuestLimit\<close>) whose quota is 0 is mapped to
  quota 1, and to the very voucher that the same record with quota 1 is mapped to;
  when moreover it has been used at least once and carries neither a status nor a
  true \<^verbatim>\<open>expired\<close> flag, its status is \<^verbatim>\<open>USED\<close>.
\<close>

theorem unlimited_quota_becomes_single_use:
  "authorizedGuestLimit v = None \<and> quota v = Some 0 \<longrightarrow>
     m_quota (mapVoucher parse nowMs v) = 1 \<and>
     mapVoucher parse nowMs v = mapVoucher parse nowMs (v\<lparr>quota := Some 1\<rparr>) \<and>
     (authorizedGuestCount v = None \<and> used v = Some u \<and> u \<ge> 1 \<and>
      status v = None \<and> expired v \<noteq> Some True \<longrightarrow>
        m_status (mapVoucher parse nowMs v) = ''USED'')"
  by (simp add: mapVoucher_def map_status_def map_quota_def map_used_def map_duration_def
      map_id_def map_createTime_def map_startTime_def js_or_num_def)

theorem unlimited_quota_becomes_single_use_witness:
  "m_quota (mapVoucher never_a_date 0 unlimited_used) = 1 \<and>
   m_status (mapVoucher never_a_date 0 unlimited_used) = ''USED''"
proof -
  have h: "authorizedGuestLimit unlimited_used = None \<and> quota unlimited_used = Some 0 \<and>
           authorizedGuestCount unlimited_used = None \<and> used unlimited_used = Some 4 \<and>
           status unlimited_used = None \<and> expired unlimited_used \<noteq> Some True"
    by (simp add: unlimited_used_def blank_def)
  have "(1::int) \<le> 4" by simp
  with h unlimited_quota_becomes_single_use [of unlimited_used never_a_date 0 4]
  show ?thesis by blast
qed

section \<open>Command processing: lemmas\<close>

lemma emit_simps [simp]:
  "trace (emit ev s) = trace s @ [ev]"
  "isRunning (emit ev s) = isRunning s"
  "syncInterval (emit ev s) = syncInterval s"
  "commandPollInterval (emit ev s) = commandPollInterval s"
  "agent_status (emit ev s) = agent_status s"
  by (simp_all add: emit_def)

lemma handled_refl: "handled s s"
  by (simp add: handled_def quiet_def)

lemma handled_emit: "\<not> isAck ev \<Longrightarrow> \<not> isComplete ev \<Longrightarrow> handled s s' \<Longrightarrow> handled s (emit ev s')"
  by (auto simp add: handled_def quiet_def stopped_def)

lemma performSync_handled: "handled s (snd (performSync env s))"
  by (auto simp add: performSync_def Let_def handled_def quiet_def stopped_def split: sum.splits)

lemma call_deleteVoucher_handled: "handled s s1 \<Longrightarrow> handled s (snd (call_deleteVoucher env vid s1))"
  by (auto simp add: call_deleteVoucher_def handled_emit split: option.splits)

lemma handleDelete_handled: "handled s (snd (handleDeleteVoucherCommand env c s))"
  by (auto simp add: handleDeleteVoucherCommand_def Let_def handled_refl handled_emit
      call_deleteVoucher_handled split: option.splits sum.splits)

lemma option_case_same [simp]: "(case x of None \<Rightarrow> y | Some e \<Rightarrow> y) = y"
  by (cases x) simp_all

lemma stop_handled: "handled s (stop env s)"
  by (auto simp add: stop_def Let_def handled_def quiet_def stopped_def)

lemma dispatch_handled: "handled s (snd (dispatch env c s))"
  using performSync_handled [of s env] handleDelete_handled [of s env c] stop_handled [of s env]
  by (auto simp add: dispatch_def handleSyncNowCommand_def handleDisconnectCommand_def handled_refl
      split: prod.splits sum.splits)

lemma dispatch_Return:
  "dispatch env c s = (r, s') \<Longrightarrow> (r = Inr Return) = (cmd_type c = ''disconnect'')"
  by (auto simp add: dispatch_def handleDisconnectCommand_def split: if_splits prod.splits sum.splits)


lemma emitted_append: "trace s' = trace s @ evs \<Longrightarrow> emitted s s' = evs"
  by (simp add: emitted_def)

lemma handled_reported0:
  "handled (emit (Ack (cmd_id c)) s) s1 \<Longrightarrow>
     \<exists>evs. trace s1 = trace s @ Ack (cmd_id c) # evs \<and> quiet evs"
  by (auto simp add: handled_def)

lemma handled_flags:
  "handled (emit a s) s1 \<Longrightarrow>
     (isRunning s1 \<longrightarrow> isRunning s) \<and> (isRunning s \<or> stopped s \<longrightarrow> isRunning s1 \<or> stopped s1) \<and>
     (stopped s \<longrightarrow> stopped s1)"
  by (auto simp add: handled_def stopped_def)

lemma reported_plain:
  assumes "handled (emit (Ack (cmd_id c)) s) s1"
  shows "reported c s s1"
proof -
  from handled_reported0 [OF assms] obtain evs where
    "trace s1 = trace s @ Ack (cmd_id c) # evs @ []" "quiet evs" by auto
  then have "\<exists>evs comps. trace s1 = trace s @ Ack (cmd_id c) # evs @ comps \<and> quiet evs \<and>
         (\<forall>ev \<in> set comps. \<exists>b m. ev = Complete (cmd_id c) b m) \<and>
         (cmd_type c = ''disconnect'' \<longrightarrow> comps = [])"
    by (intro exI [of _ evs] exI [of _ "[]"]) simp
  with handled_flags [OF assms] show ?thesis by (simp add: reported_def)
qed

lemma reported_complete:
  assumes "reported c s s1" "cmd_type c \<noteq> ''disconnect''"
  shows "reported c s (snd (call_completeCommand env (cmd_id c) b m s1))"
proof -
  from assms obtain evs comps where t: "trace s1 = trace s @ Ack (cmd_id c) # evs @ comps"
    "quiet evs" "\<forall>ev \<in> set comps. \<exists>b m. ev = Complete (cmd_id c) b m"
    by (auto simp add: reported_def)
  let ?s2 = "snd (call_completeCommand env (cmd_id c) b m s1)"
  have s2: "?s2 = emit (Complete (cmd_id c) b m) s1"
    by (simp add: call_completeCommand_def split: option.splits)
  have "trace ?s2 = trace s @ Ack (cmd_id c) # evs @ (comps @ [Complete (cmd_id c) b m])"
    using t by (simp add: s2)
  moreover have "\<forall>ev \<in> set (comps @ [Complete (cmd_id c) b m]). \<exists>b m. ev = Complete (cmd_id c) b m"
    using t by auto
  ultimately have "\<exists>evs comps. trace ?s2 = trace s @ Ack (cmd_id c) # evs @ comps \<and> quiet evs \<and>
         (\<forall>ev \<in> set comps. \<exists>b m. ev = Complete (cmd_id c) b m) \<and>
         (cmd_type c = ''disconnect'' \<longrightarrow> comps = [])"
    using t(2) assms(2) by blast
  moreover have "isRunning ?s2 = isRunning s1" "stopped ?s2 = stopped s1"
    by (simp_all add: s2 stopped_def)
  ultimately show ?thesis using assms(1) by (simp add: reported_def)
qed

lemma processCommand_reported: "reported c s (snd (processCommand env c s))"
proof (cases "vorio_acknowledgeCommand env (length (trace s)) (cmd_id c)")
  case (Some e)
  have "handled (emit (Ack (cmd_id c)) s) (emit (Ack (cmd_id c)) s)" by (rule handled_refl)
  from reported_plain [OF this] Some show ?thesis by (simp add: processCommand_def)
next
  case None
  let ?sa = "emit (Ack (cmd_id c)) s"
  obtain r s1 where d: "dispatch env c ?sa = (r, s1)" by (cases "dispatch env c ?sa")
  have h: "handled ?sa s1" using dispatch_handled [of ?sa env c] d by simp
  have p: "reported c s s1" by (rule reported_plain [OF h])
  show ?thesis
  proof (cases "cmd_type c = ''disconnect''")
    case True
    with dispatch_Return [OF d] have "r = Inr Return" by simp
    with None d p show ?thesis by (simp add: processCommand_def)
  next
    case False
    with dispatch_Return [OF d] have nr: "r \<noteq> Inr Return" by simp
    show ?thesis
    proof (cases r)
      case (Inl e)
      with None d reported_complete [OF p False] show ?thesis by (simp add: processCommand_def)
    next
      case (Inr f)
      with nr have f: "f = Continue" by (cases f) auto
      let ?c1 = "call_completeCommand env (cmd_id c) True None s1"
      obtain r2 s2 where c1: "?c1 = (r2, s2)" by (cases ?c1)
      have p2: "reported c s s2" using reported_complete [OF p False, of env True None] c1 by simp
      show ?thesis
      proof (cases r2)
        case (Inl e)
        with None d Inr f c1 reported_complete [OF p2 False] show ?thesis
          by (simp add: processCommand_def)
      next
        case (Inr u)
        with None d \<open>r = Inr f\<close> f c1 p2 show ?thesis by (simp add: processCommand_def)
      qed
    qed
  qed
qed


lemma processCommand_disconnect:
  assumes "cmd_type c = ''disconnect''"
      and "vorio_acknowledgeCommand env (length (trace s)) (cmd_id c) = None"
  shows "processCommand env c s = (Inr (), stop env (emit (Ack (cmd_id c)) s))"
  using assms by (simp add: processCommand_def dispatch_def handleDisconnectCommand_def)

lemma processCommand_disconnect_stops:
  assumes "cmd_type c = ''disconnect''" "fst (processCommand env c s) = Inr ()"
  shows "\<not> isRunning (snd (processCommand env c s))"
proof (cases "vorio_acknowledgeCommand env (length (trace s)) (cmd_id c)")
  case None
  from processCommand_disconnect [OF assms(1) None] show ?thesis
    by (simp add: stop_def Let_def)
next
  case (Some e)
  with assms(2) show ?thesis by (simp add: processCommand_def)
qed

lemma stop_running:
  "isRunning s \<Longrightarrow> stopped (stop env s) \<and> trace (stop env s) = trace s @ [CloudDisconnect, Logout]"
  by (simp add: stop_def Let_def stopped_def)

lemma reported_batch_ok: 
  assumes "reported c s s'" shows "batch_ok [c] s s'"
proof -
  from assms obtain evs comps where t: "trace s' = trace s @ Ack (cmd_id c) # evs @ comps"
    "quiet evs" "\<forall>ev \<in> set comps. \<exists>b m. ev = Complete (cmd_id c) b m"
    "cmd_type c = ''disconnect'' \<longrightarrow> comps = []"
    by (auto simp add: reported_def)
  have "\<forall>i b m. Complete i b m \<in> set (Ack (cmd_id c) # evs @ comps) \<longrightarrow>
            (\<exists>c' \<in> set [c]. cmd_id c' = i \<and> cmd_type c' \<noteq> ''disconnect'')"
    using t(2,3,4) by (auto simp add: quiet_def)
  with t(1) have "\<exists>evs. trace s' = trace s @ evs \<and>
         (\<forall>i b m. Complete i b m \<in> set evs \<longrightarrow>
            (\<exists>c' \<in> set [c]. cmd_id c' = i \<and> cmd_type c' \<noteq> ''disconnect''))"
    by blast
  with assms show ?thesis by (simp add: batch_ok_def reported_def)
qed

lemma batch_ok_trans:
  assumes "batch_ok [c] s s1" "batch_ok cs s1 s2"
  shows "batch_ok (c # cs) s s2"
proof -
  from assms(1) obtain e1 where 1: "trace s1 = trace s @ e1"
     "\<forall>i b m. Complete i b m \<in> set e1 \<longrightarrow> (\<exists>c' \<in> set [c]. cmd_id c' = i \<and> cmd_type c' \<noteq> ''disconnect'')"
    by (auto simp add: batch_ok_def)
  from assms(2) obtain e2 where 2: "trace s2 = trace s1 @ e2"
     "\<forall>i b m. Complete i b m \<in> set e2 \<longrightarrow> (\<exists>c' \<in> set cs. cmd_id c' = i \<and> cmd_type c' \<noteq> ''disconnect'')"
    by (auto simp add: batch_ok_def)
  have "trace s2 = trace s @ (e1 @ e2)" using 1 2 by simp
  moreover have "\<forall>i b m. Complete i b m \<in> set (e1 @ e2) \<longrightarrow>
      (\<exists>c' \<in> set (c # cs). cmd_id c' = i \<and> cmd_type c' \<noteq> ''disconnect'')"
    using 1(2) 2(2) by simp blast
  ultimately have "\<exists>evs. trace s2 = trace s @ evs \<and>
         (\<forall>i b m. Complete i b m \<in> set evs \<longrightarrow>
            (\<exists>c' \<in> set (c # cs). cmd_id c' = i \<and> cmd_type c' \<noteq> ''disconnect''))"
    by blast
  moreover have "(isRunning s2 \<longrightarrow> isRunning s) \<and>
      (isRunning s \<or> stopped s \<longrightarrow> isRunning s2 \<or> stopped s2) \<and> (stopped s \<longrightarrow> stopped s2)"
    using assms unfolding batch_ok_def by blast
  ultimately show ?thesis unfolding batch_ok_def by blast
qed

lemma batch_ok_refl: "batch_ok cs s s"
  by (simp add: batch_ok_def)

lemma batch_ok_weaken: "batch_ok [c] s s' \<Longrightarrow> batch_ok (c # cs) s s'"
  using batch_ok_trans [of c s s' cs s'] batch_ok_refl by blast

lemma processAll_batch_ok: "batch_ok cmds s (snd (processAll env cmds s))"
proof (induction cmds arbitrary: s)
  case Nil
  show ?case by (simp add: batch_ok_refl)
next
  case (Cons c cs)
  obtain r s1 where p: "processCommand env c s = (r, s1)" by (cases "processCommand env c s")
  have b1: "batch_ok [c] s s1"
    using reported_batch_ok [OF processCommand_reported [of c s env]] p by simp
  show ?case
  proof (cases r)
    case (Inl e)
    with p batch_ok_weaken [OF b1] show ?thesis by simp
  next
    case (Inr u)
    with p batch_ok_trans [OF b1 Cons.IH [of s1]] show ?thesis by simp
  qed
qed

lemma processAll_acked:
  "fst (processAll env cmds s) = Inr () \<Longrightarrow> c \<in> set cmds \<Longrightarrow>
     Ack (cmd_id c) \<in> set (emitted s (snd (processAll env cmds s))) \<and>
     (cmd_type c = ''disconnect'' \<longrightarrow> \<not> isRunning (snd (processAll env cmds s)))"
proof (induction cmds arbitrary: s)
  case Nil
  then show ?case by simp
next
  case (Cons a cs)
  obtain r s1 where p: "processCommand env a s = (r, s1)" by (cases "processCommand env a s")
  from Cons.prems(1) p obtain u where r: "r = Inr u" by (cases r) auto
  from p r have all: "processAll env (a # cs) s = processAll env cs s1" by simp
  from Cons.prems(1) all have ok: "fst (processAll env cs s1) = Inr ()" by simp
  let ?s2 = "snd (processAll env cs s1)"
  from processCommand_reported [of a s env] p obtain e1 where
    e1: "trace s1 = trace s @ Ack (cmd_id a) # e1" by (auto simp add: reported_def)
  from processAll_batch_ok [of cs s1 env] obtain e2 where
    e2: "trace ?s2 = trace s1 @ e2" and run: "isRunning ?s2 \<longrightarrow> isRunning s1"
    by (auto simp add: batch_ok_def)
  have em: "emitted s ?s2 = Ack (cmd_id a) # e1 @ e2"
    using e1 e2 by (simp add: emitted_def)
  have em1: "emitted s1 ?s2 = e2" using e2 by (simp add: emitted_def)
  show ?case
  proof (cases "c = a")
    case True
    have "cmd_type a = ''disconnect'' \<longrightarrow> \<not> isRunning s1"
      using processCommand_disconnect_stops [of a env s] p r by (cases u) simp
    then have "cmd_type c = ''disconnect'' \<longrightarrow> \<not> isRunning ?s2" using True run by blast
    moreover have "Ack (cmd_id c) \<in> set (emitted s ?s2)" using True em by simp
    ultimately show ?thesis using all by simp
  next
    case False
    with Cons.prems(2) have "c \<in> set cs" by simp
    from Cons.IH [OF ok this] em em1 all show ?thesis by simp
  qed
qed


lemma processCommand_cloud_ok:
  assumes "\<forall>n i. vorio_acknowledgeCommand env n i = None"
      and "\<forall>n i b m. vorio_completeCommand env n i b m = None"
  shows "processCommand env c s =
     (Inr (),
      (if cmd_type c = ''disconnect'' then snd (dispatch env c (emit (Ack (cmd_id c)) s))
       else case fst (dispatch env c (emit (Ack (cmd_id c)) s)) of
              Inl e \<Rightarrow> emit (Complete (cmd_id c) False (Some (getErrorMessage e)))
                         (snd (dispatch env c (emit (Ack (cmd_id c)) s)))
            | Inr f \<Rightarrow> emit (Complete (cmd_id c) True None)
                         (snd (dispatch env c (emit (Ack (cmd_id c)) s)))))"
proof -
  let ?sa = "emit (Ack (cmd_id c)) s"
  obtain r sd where d: "dispatch env c ?sa = (r, sd)" by (cases "dispatch env c ?sa")
  note R = dispatch_Return [OF d]
  show ?thesis
  proof (cases r)
    case (Inl e)
    with R have "cmd_type c \<noteq> ''disconnect''" by simp
    with Inl d assms show ?thesis
      by (simp add: processCommand_def call_completeCommand_def)
  next
    case (Inr f)
    show ?thesis
    proof (cases f)
      case Continue
      with Inr R have "cmd_type c \<noteq> ''disconnect''" by simp
      with Inr Continue d assms show ?thesis
        by (simp add: processCommand_def call_completeCommand_def)
    next
      case Return
      with Inr R have "cmd_type c = ''disconnect''" by simp
      with Inr Return d assms show ?thesis
        by (simp add: processCommand_def)
    qed
  qed
qed

lemma processAll_snoc:
  "processAll env (cs @ [c]) s =
     (case processAll env cs s of
        (Inl e, s') \<Rightarrow> (Inl e, s')
      | (Inr u, s') \<Rightarrow> processCommand env c s')"
proof (induction cs arbitrary: s)
  case Nil
  show ?case by (simp split: prod.splits sum.splits)
next
  case (Cons a cs)
  then show ?case by (simp split: prod.splits sum.splits)
qed

lemma processAll_cloud_ok:
  assumes "\<forall>n i. vorio_acknowledgeCommand env n i = None"
      and "\<forall>n i b m. vorio_completeCommand env n i b m = None"
  shows "fst (processAll env cmds s) = Inr ()"
proof (induction cmds arbitrary: s)
  case Nil
  show ?case by simp
next
  case (Cons c cs)
  from processCommand_cloud_ok [OF assms, of c s] Cons.IH show ?case by simp
qed

lemma processCommand_acks:
  "filter isAck (emitted s (snd (processCommand env c s))) = [Ack (cmd_id c)]"
proof -
  from processCommand_reported [of c s env] obtain evs comps where
    t: "trace (snd (processCommand env c s)) = trace s @ Ack (cmd_id c) # evs @ comps"
    "quiet evs" "\<forall>ev \<in> set comps. \<exists>b m. ev = Complete (cmd_id c) b m"
    by (auto simp add: reported_def)
  have "filter isAck evs = []" using t(2) by (auto simp add: quiet_def filter_empty_conv)
  moreover have "filter isAck comps = []" using t(3) by (auto simp add: filter_empty_conv)
  ultimately show ?thesis using t(1) by (simp add: emitted_def)
qed

lemma emitted_trans:
  "trace s1 = trace s @ e1 \<Longrightarrow> trace s2 = trace s1 @ e2 \<Longrightarrow>
     emitted s s2 = emitted s s1 @ emitted s1 s2"
  by (simp add: emitted_def)

lemma processCommand_grows: "\<exists>evs. trace (snd (processCommand env c s)) = trace s @ evs"
  using processCommand_reported [of c s env] by (auto simp add: reported_def)

lemma processAll_grows: "\<exists>evs. trace (snd (processAll env cmds s)) = trace s @ evs"
  using processAll_batch_ok [of cmds s env] by (auto simp add: batch_ok_def)

lemma processAll_acks:
  "fst (processAll env cmds s) = Inr () \<Longrightarrow>
     filter isAck (emitted s (snd (processAll env cmds s))) = map (\<lambda>c. Ack (cmd_id c)) cmds"
proof (induction cmds arbitrary: s)
  case Nil
  show ?case by (simp add: emitted_def)
next
  case (Cons c cs)
  obtain r s1 where p: "processCommand env c s = (r, s1)" by (cases "processCommand env c s")
  from Cons.prems p obtain u where r: "r = Inr u" by (cases r) auto
  from p r have all: "processAll env (c # cs) s = processAll env cs s1" by simp
  with Cons.prems have ok: "fst (processAll env cs s1) = Inr ()" by simp
  from processCommand_grows [of env c s] p obtain e1 where e1: "trace s1 = trace s @ e1" by auto
  from processAll_grows [of env cs s1] obtain e2 where
    e2: "trace (snd (processAll env cs s1)) = trace s1 @ e2" by auto
  have "filter isAck (emitted s s1) = [Ack (cmd_id c)]"
    using processCommand_acks [of s env c] p by simp
  with Cons.IH [OF ok] emitted_trans [OF e1 e2] all show ?case by simp
qed

section \<open>Command processing: properties\<close>

text \<open>
  The batch [\<^verbatim>\<open>sync_now\<close> c1, \<^verbatim>\<open>delete_voucher\<close> c2, \<^verbatim>\<open>disconnect\<close> c3] in which the
  dispatch of c2 throws: c3 is acknowledged and never completed. And the batch
  [\<^verbatim>\<open>sync_now\<close> c1, \<^verbatim>\<open>delete_voucher\<close> c2, \<^verbatim>\<open>sync_now\<close> c3] when the cloud stops
  answering: the completion of c2 is sent and throws, the loop ends, and c3 is neither
  acknowledged nor processed.
\<close>

theorem batch_counterexample:
  "processAll delete_fails batch_with_disconnect service0 =
     (Inr (),
      \<lparr> isRunning = False, syncInterval = False, commandPollInterval = False,
        agent_status = \<lparr> connected = False, lastSync = Some 0, lastError = None, voucherCount = 0 \<rparr>,
        trace = [Ack ''c1'', GetVouchers, SyncVouchers [], Complete ''c1'' True None,
                 Ack ''c2'', DeleteVoucher ''v9'', Complete ''c2'' False (Some ''api.err.NotFound''),
                 Ack ''c3'', CloudDisconnect, Logout] \<rparr>) \<and>
   processAll cloud_lost batch_mid_failure service0 =
     (Inl (VorioApiError ''timeout'' None),
      \<lparr> isRunning = True, syncInterval = True, commandPollInterval = True,
        agent_status = \<lparr> connected = True, lastSync = Some 0, lastError = None, voucherCount = 0 \<rparr>,
        trace = [Ack ''c1'', GetVouchers, SyncVouchers [], Complete ''c1'' True None,
                 Ack ''c2'', DeleteVoucher ''v9'', Complete ''c2'' False (Some ''api.err.NotFound'')] \<rparr>)"
  by code_simp

text \<open>
  C4, as the code has it. Provided every acknowledgement and every completion call
  to the cloud returns normally: a batch of any length is processed to its end
  whatever the dispatches throw; the acknowledgements sent are exactly those of the
  commands of the batch, in order; and for each position \<open>k\<close>, the command is
  acknowledged first, then its dispatch runs (making calls that are neither
  acknowledgements nor completions), then one completion follows, with
  \<^verbatim>\<open>success=false\<close> and the message of the error when the dispatch threw and
  \<^verbatim>\<open>success=true\<close> otherwise; a \<^verbatim>\<open>disconnect\<close> command is acknowledged and
  dispatched, and not completed. \<^verbatim>\<open>processCommands\<close>, and with it one firing of the
  command-poll interval of a running service, is the fetch followed by this loop over
  the commands fetched.
\<close>

theorem batch_failure_isolated:
  assumes "\<forall>n i. vorio_acknowledgeCommand env n i = None"
      and "\<forall>n i b m. vorio_completeCommand env n i b m = None"
  shows "(vorio_getCommands env (length (trace s0)) = Inr cmds \<longrightarrow>
            processCommands env s0 = processAll env cmds (emit GetCommands s0) \<and>
            (isRunning s0 \<longrightarrow>
               commandPollTick env s0 = snd (processAll env cmds (emit GetCommands s0)))) \<and>
         fst (processAll env cmds s) = Inr () \<and>
         filter isAck (emitted s (snd (processAll env cmds s))) = map (\<lambda>c. Ack (cmd_id c)) cmds \<and>
         (\<forall>k < length cmds.
            (let sk = snd (processAll env (take k cmds) s);
                 c = cmds ! k;
                 sa = emit (Ack (cmd_id c)) sk;
                 r = fst (dispatch env c sa);
                 sd = snd (dispatch env c sa)
             in (\<exists>evs. trace sd = trace sa @ evs \<and> quiet evs) \<and>
                trace (snd (processAll env (take (Suc k) cmds) s)) =
                  trace sd @
                  (if cmd_type c = ''disconnect'' then []
                   else case r of
                          Inl e \<Rightarrow> [Complete (cmd_id c) False (Some (getErrorMessage e))]
                        | Inr f \<Rightarrow> [Complete (cmd_id c) True None])))"
proof -
  have a: "vorio_getCommands env (length (trace s0)) = Inr cmds \<longrightarrow>
            processCommands env s0 = processAll env cmds (emit GetCommands s0) \<and>
            (isRunning s0 \<longrightarrow>
               commandPollTick env s0 = snd (processAll env cmds (emit GetCommands s0)))"
    by (simp add: processCommands_def commandPollTick_def)
  have b: "fst (processAll env cmds s) = Inr ()" by (rule processAll_cloud_ok [OF assms])
  have c: "filter isAck (emitted s (snd (processAll env cmds s))) = map (\<lambda>c. Ack (cmd_id c)) cmds"
    by (rule processAll_acks [OF b])
  have d: "\<forall>k < length cmds.
            (let sk = snd (processAll env (take k cmds) s);
                 c = cmds ! k;
                 sa = emit (Ack (cmd_id c)) sk;
                 r = fst (dispatch env c sa);
                 sd = snd (dispatch env c sa)
             in (\<exists>evs. trace sd = trace sa @ evs \<and> quiet evs) \<and>
                trace (snd (processAll env (take (Suc k) cmds) s)) =
                  trace sd @
                  (if cmd_type c = ''disconnect'' then []
                   else case r of
                          Inl e \<Rightarrow> [Complete (cmd_id c) False (Some (getErrorMessage e))]
                        | Inr f \<Rightarrow> [Complete (cmd_id c) True None]))"
  proof (intro allI impI)
    fix k assume k: "k < length cmds"
    let ?sk = "snd (processAll env (take k cmds) s)"
    let ?c = "cmds ! k"
    let ?sa = "emit (Ack (cmd_id ?c)) ?sk"
    have pre: "fst (processAll env (take k cmds) s) = Inr ()"
      by (rule processAll_cloud_ok [OF assms])
    have "take (Suc k) cmds = take k cmds @ [?c]" using k by (simp add: take_Suc_conv_app_nth)
    moreover obtain r0 s0' where p0: "processAll env (take k cmds) s = (r0, s0')"
      by (cases "processAll env (take k cmds) s")
    moreover from pre p0 have "r0 = Inr ()" by simp
    ultimately have "processAll env (take (Suc k) cmds) s = processCommand env ?c ?sk"
      by (simp add: processAll_snoc)
    then have step: "trace (snd (processAll env (take (Suc k) cmds) s)) =
        trace (snd (dispatch env ?c ?sa)) @
          (if cmd_type ?c = ''disconnect'' then []
           else case fst (dispatch env ?c ?sa) of
                  Inl e \<Rightarrow> [Complete (cmd_id ?c) False (Some (getErrorMessage e))]
                | Inr f \<Rightarrow> [Complete (cmd_id ?c) True None])"
      by (simp add: processCommand_cloud_ok [OF assms] split: sum.splits)
    have "\<exists>evs. trace (snd (dispatch env ?c ?sa)) = trace ?sa @ evs \<and> quiet evs"
      using dispatch_handled [of ?sa env ?c] by (simp add: handled_def)
    with step show "let sk = snd (processAll env (take k cmds) s);
                 c = cmds ! k;
                 sa = emit (Ack (cmd_id c)) sk;
                 r = fst (dispatch env c sa);
                 sd = snd (dispatch env c sa)
             in (\<exists>evs. trace sd = trace sa @ evs \<and> quiet evs) \<and>
                trace (snd (processAll env (take (Suc k) cmds) s)) =
                  trace sd @
                  (if cmd_type c = ''disconnect'' then []
                   else case r of
                          Inl e \<Rightarrow> [Complete (cmd_id c) False (Some (getErrorMessage e))]
                        | Inr f \<Rightarrow> [Complete (cmd_id c) True None])"
      by (simp only: Let_def) 
  qed
  from a b c d show ?thesis by blast
qed


theorem batch_failure_isolated_witness:
  "fst (processAll delete_fails batch_mid_failure service0) = Inr () \<and>
   filter isAck (emitted service0 (snd (processAll delete_fails batch_mid_failure service0)))
     = [Ack ''c1'', Ack ''c2'', Ack ''c3''] \<and>
   trace (snd (processAll delete_fails (take 2 batch_mid_failure) service0))
     = [Ack ''c1'', GetVouchers, SyncVouchers [], Complete ''c1'' True None,
        Ack ''c2'', DeleteVoucher ''v9'', Complete ''c2'' False (Some ''api.err.NotFound'')] \<and>
   trace (snd (processAll delete_fails batch_mid_failure service0))
     = [Ack ''c1'', GetVouchers, SyncVouchers [], Complete ''c1'' True None,
        Ack ''c2'', DeleteVoucher ''v9'', Complete ''c2'' False (Some ''api.err.NotFound''),
        Ack ''c3'', GetVouchers, SyncVouchers [], Complete ''c3'' True None]"
proof -
  have h1: "\<forall>n i. vorio_acknowledgeCommand delete_fails n i = None"
    by (simp add: delete_fails_def)
  have h2: "\<forall>n i b m. vorio_completeCommand delete_fails n i b m = None"
    by (simp add: delete_fails_def)
  note T = batch_failure_isolated [OF h1 h2, of service0 batch_mid_failure service0]
  have len: "length batch_mid_failure = 3" by (simp add: batch_mid_failure_def)
  have e1: "trace (snd (processAll delete_fails (take 2 batch_mid_failure) service0))
     = [Ack ''c1'', GetVouchers, SyncVouchers [], Complete ''c1'' True None,
        Ack ''c2'', DeleteVoucher ''v9'', Complete ''c2'' False (Some ''api.err.NotFound'')]"
    by code_simp
  have e2: "trace (snd (processAll delete_fails batch_mid_failure service0))
     = [Ack ''c1'', GetVouchers, SyncVouchers [], Complete ''c1'' True None,
        Ack ''c2'', DeleteVoucher ''v9'', Complete ''c2'' False (Some ''api.err.NotFound''),
        Ack ''c3'', GetVouchers, SyncVouchers [], Complete ''c3'' True None]"
    by code_simp
  have m: "map (\<lambda>c. Ack (cmd_id c)) batch_mid_failure = [Ack ''c1'', Ack ''c2'', Ack ''c3'']"
    by (simp add: batch_mid_failure_def cmd_sync_def cmd_delete_def)
  from T m e1 e2 show ?thesis by simp
qed

text \<open>
  The acknowledgement of a \<^verbatim>\<open>disconnect\<close> command is awaited before the command is
  dispatched, and nothing catches its failure: when the cloud rejects it, the stop
  sequence is not run and the service is left running, with both loops scheduled and
  marked connected.
\<close>

theorem disconnect_ack_fails_counterexample:
  "cmd_disconnect ''c3'' \<in> set [cmd_disconnect ''c3''] \<and>
   cmd_type (cmd_disconnect ''c3'') = ''disconnect'' \<and>
   processAll ack_lost [cmd_disconnect ''c3''] service0 =
     (Inl (VorioApiError ''timeout'' None),
      \<lparr> isRunning = True, syncInterval = True, commandPollInterval = True,
        agent_status = \<lparr> connected = True, lastSync = None, lastError = None, voucherCount = 0 \<rparr>,
        trace = [Ack ''c3''] \<rparr>) \<and>
   \<not> stopped (snd (processAll ack_lost [cmd_disconnect ''c3''] service0))"
  by code_simp

text \<open>
  C5, as the code has it. For a command of type \<^verbatim>\<open>disconnect\<close>: once its
  acknowledgement has returned,
  processing it is exactly the stop sequence (run after the acknowledgement) and
  returns normally; the service is then not running and, if it was running before,
  it is stopped (both intervals cleared, marked disconnected) after telling the cloud
  and logging out. When the acknowledgement throws, its error leaves the processing
  of the command and nothing but the acknowledgement call has happened: the service is
  as it was. Either way no completion call is made while the command is processed. In a
  batch that runs to its end and contains the command, the command is acknowledged and
  the service is stopped at the end; and no completion call carries the command's id
  anywhere in the batch (as long as no command of another type shares the id).
\<close>

theorem disconnect_stops_without_completion:
  assumes "cmd_type c = ''disconnect''"
  shows "(vorio_acknowledgeCommand env (length (trace s)) (cmd_id c) = None \<longrightarrow>
            processCommand env c s = (Inr (), stop env (emit (Ack (cmd_id c)) s)) \<and>
            \<not> isRunning (snd (processCommand env c s)) \<and>
            (isRunning s \<longrightarrow>
               stopped (snd (processCommand env c s)) \<and>
               emitted s (snd (processCommand env c s)) =
                 [Ack (cmd_id c), CloudDisconnect, Logout])) \<and>
         (vorio_acknowledgeCommand env (length (trace s)) (cmd_id c) = Some e \<longrightarrow>
            processCommand env c s = (Inl e, emit (Ack (cmd_id c)) s)) \<and>
         (\<forall>i b m. Complete i b m \<notin> set (emitted s (snd (processCommand env c s)))) \<and>
         (c \<in> set cmds \<and> fst (processAll env cmds s) = Inr () \<longrightarrow>
            Ack (cmd_id c) \<in> set (emitted s (snd (processAll env cmds s))) \<and>
            \<not> isRunning (snd (processAll env cmds s)) \<and>
            (isRunning s \<longrightarrow> stopped (snd (processAll env cmds s)))) \<and>
         ((\<forall>c' \<in> set cmds. cmd_id c' = cmd_id c \<longrightarrow> cmd_type c' = ''disconnect'') \<longrightarrow>
            (\<forall>b m. Complete (cmd_id c) b m \<notin> set (emitted s (snd (processAll env cmds s)))))"
proof -
  let ?sa = "emit (Ack (cmd_id c)) s"
  have A: "vorio_acknowledgeCommand env (length (trace s)) (cmd_id c) = None \<longrightarrow>
            processCommand env c s = (Inr (), stop env ?sa) \<and>
            \<not> isRunning (snd (processCommand env c s)) \<and>
            (isRunning s \<longrightarrow>
               stopped (snd (processCommand env c s)) \<and>
               emitted s (snd (processCommand env c s)) =
                 [Ack (cmd_id c), CloudDisconnect, Logout])"
  proof
    assume ack: "vorio_acknowledgeCommand env (length (trace s)) (cmd_id c) = None"
    note eq = processCommand_disconnect [OF assms ack]
    have "\<not> isRunning (stop env ?sa)" by (simp add: stop_def Let_def)
    moreover have "isRunning s \<longrightarrow> stopped (stop env ?sa) \<and>
        emitted s (stop env ?sa) = [Ack (cmd_id c), CloudDisconnect, Logout]"
      using stop_running [of ?sa env] by (simp add: emitted_def)
    ultimately show "processCommand env c s = (Inr (), stop env ?sa) \<and>
            \<not> isRunning (snd (processCommand env c s)) \<and>
            (isRunning s \<longrightarrow>
               stopped (snd (processCommand env c s)) \<and>
               emitted s (snd (processCommand env c s)) =
                 [Ack (cmd_id c), CloudDisconnect, Logout])"
      using eq by simp
  qed
  have E: "vorio_acknowledgeCommand env (length (trace s)) (cmd_id c) = Some e \<longrightarrow>
            processCommand env c s = (Inl e, ?sa)"
    by (simp add: processCommand_def Let_def)
  have B: "\<forall>i b m. Complete i b m \<notin> set (emitted s (snd (processCommand env c s)))"
  proof -
    from processCommand_reported [of c s env] assms obtain evs where
      t: "trace (snd (processCommand env c s)) = trace s @ Ack (cmd_id c) # evs" "quiet evs"
      by (auto simp add: reported_def)
    then show ?thesis by (auto simp add: emitted_def quiet_def)
  qed
  have C: "c \<in> set cmds \<and> fst (processAll env cmds s) = Inr () \<longrightarrow>
            Ack (cmd_id c) \<in> set (emitted s (snd (processAll env cmds s))) \<and>
            \<not> isRunning (snd (processAll env cmds s)) \<and>
            (isRunning s \<longrightarrow> stopped (snd (processAll env cmds s)))"
  proof
    assume h: "c \<in> set cmds \<and> fst (processAll env cmds s) = Inr ()"
    then have 1: "Ack (cmd_id c) \<in> set (emitted s (snd (processAll env cmds s)))"
      and 2: "\<not> isRunning (snd (processAll env cmds s))"
      using processAll_acked [of env cmds s c] assms by simp_all
    have "isRunning s \<longrightarrow> isRunning (snd (processAll env cmds s)) \<or> stopped (snd (processAll env cmds s))"
      using processAll_batch_ok [of cmds s env] by (simp add: batch_ok_def)
    with 1 2 show "Ack (cmd_id c) \<in> set (emitted s (snd (processAll env cmds s))) \<and>
            \<not> isRunning (snd (processAll env cmds s)) \<and>
            (isRunning s \<longrightarrow> stopped (snd (processAll env cmds s)))" by blast
  qed
  have D: "(\<forall>c' \<in> set cmds. cmd_id c' = cmd_id c \<longrightarrow> cmd_type c' = ''disconnect'') \<longrightarrow>
            (\<forall>b m. Complete (cmd_id c) b m \<notin> set (emitted s (snd (processAll env cmds s))))"
  proof (intro impI allI)
    fix b m
    assume u: "\<forall>c' \<in> set cmds. cmd_id c' = cmd_id c \<longrightarrow> cmd_type c' = ''disconnect''"
    from processAll_batch_ok [of cmds s env] obtain evs where
      t: "trace (snd (processAll env cmds s)) = trace s @ evs"
      "\<forall>i b m. Complete i b m \<in> set evs \<longrightarrow>
            (\<exists>c' \<in> set cmds. cmd_id c' = i \<and> cmd_type c' \<noteq> ''disconnect'')"
      by (auto simp add: batch_ok_def)
    have "emitted s (snd (processAll env cmds s)) = evs" using t(1) by (simp add: emitted_def)
    with t(2) u show "Complete (cmd_id c) b m \<notin> set (emitted s (snd (processAll env cmds s)))"
      by blast
  qed
  from A E B C D show ?thesis by blast
qed

theorem disconnect_stops_without_completion_witness:
  "processCommand delete_fails (cmd_disconnect ''c3'') service0 =
     (Inr (), stop delete_fails (emit (Ack ''c3'') service0)) \<and>
   emitted service0 (snd (processCommand delete_fails (cmd_disconnect ''c3'') service0)) =
     [Ack ''c3'', CloudDisconnect, Logout] \<and>
   stopped (snd (processAll delete_fails batch_with_disconnect service0)) \<and>
   (\<forall>b m. Complete ''c3'' b m \<notin>
      set (emitted service0 (snd (processAll delete_fails batch_with_disconnect service0)))) \<and>
   processCommand ack_lost (cmd_disconnect ''c3'') service0 =
     (Inl (VorioApiError ''timeout'' None), emit (Ack ''c3'') service0)"
proof -
  have t: "cmd_type (cmd_disconnect ''c3'') = ''disconnect''" by (simp add: cmd_disconnect_def)
  note T = disconnect_stops_without_completion
             [OF t, where env = delete_fails and s = service0 and cmds = batch_with_disconnect]
  note U = disconnect_stops_without_completion
             [OF t, where env = ack_lost and s = service0
                and e = "VorioApiError ''timeout'' None"]
  have i: "cmd_id (cmd_disconnect ''c3'') = ''c3''" by (simp add: cmd_disconnect_def)
  have ack: "vorio_acknowledgeCommand delete_fails (length (trace service0)) ''c3'' = None"
    by (simp add: delete_fails_def)
  have nack: "vorio_acknowledgeCommand ack_lost (length (trace service0)) ''c3'' =
      Some (VorioApiError ''timeout'' None)"
    by (simp add: ack_lost_def)
  have run: "isRunning service0" by (simp add: service0_def)
  have mem: "cmd_disconnect ''c3'' \<in> set batch_with_disconnect"
    by (simp add: batch_with_disconnect_def)
  have ok: "fst (processAll delete_fails batch_with_disconnect service0) = Inr ()"
    by code_simp
  have uniq: "\<forall>c' \<in> set batch_with_disconnect.
      cmd_id c' = ''c3'' \<longrightarrow> cmd_type c' = ''disconnect''"
    by (simp add: batch_with_disconnect_def cmd_sync_def cmd_delete_def cmd_disconnect_def)
  from T [unfolded i] ack run mem ok uniq have 1:
    "processCommand delete_fails (cmd_disconnect ''c3'') service0 =
       (Inr (), stop delete_fails (emit (Ack ''c3'') service0)) \<and>
     emitted service0 (snd (processCommand delete_fails (cmd_disconnect ''c3'') service0)) =
       [Ack ''c3'', CloudDisconnect, Logout] \<and>
     stopped (snd (processAll delete_fails batch_with_disconnect service0)) \<and>
     (\<forall>b m. Complete ''c3'' b m \<notin>
        set (emitted service0 (snd (processAll delete_fails batch_with_disconnect service0))))"
    by blast
  from U [unfolded i] nack have 2:
    "processCommand ack_lost (cmd_disconnect ''c3'') service0 =
       (Inl (VorioApiError ''timeout'' None), emit (Ack ''c3'') service0)"
    by blast
  from 1 2 show ?thesis by blast
qed

section \<open>The adapter: lemmas\<close>

lemma send_requests [simp]: "requests (snd (send ctl req a)) = requests a @ [req]"
  by (simp add: send_def)

lemma follow_redirects_no_response:
  "ctl (length (requests a)) req = NetworkError c m \<Longrightarrow>
     follow_redirects ctl k req a = (NetworkError c m, a\<lparr>requests := requests a @ [req]\<rparr>)"
  by (cases k) (simp_all add: send_def)

lemma follow_redirects_direct:
  "ctl (length (requests a)) req = Response r \<Longrightarrow> redirect_target r = None \<Longrightarrow>
     follow_redirects ctl k req a = (Response r, a\<lparr>requests := requests a @ [req]\<rparr>)"
  by (cases k) (simp_all add: send_def)

text \<open>
  The probe follows a redirect and then finds the controller; and a controller that
  answers every request with the same redirect exhausts the limit, which \<^verbatim>\<open>login\<close>
  reports as a connection error before any authentication request.
\<close>

lemma testConnectivity_redirect_once:
  "testConnectivity config0 redirect_once adapter0 =
     (Inr True, adapter0\<lparr>requests := [GetRoot, Follow ''/login'']\<rparr>)"
  by code_simp

lemma follow_redirects_loop:
  assumes "\<forall>n q. ctl n q = Response r" and "redirect_target r = Some l"
  shows "follow_redirects ctl k req a =
           (NetworkError (Some ''ERR_FR_TOO_MANY_REDIRECTS'') ''Maximum number of redirects exceeded'',
            a\<lparr>requests := requests a @ req # replicate k (Follow l)\<rparr>)"
  by (induction k arbitrary: req a) (simp_all add: send_def assms)

lemma login_redirect_loop:
  assumes "\<forall>n q. ctl n q = Response r" and "redirect_target r = Some l"
  shows "login cfg ctl a =
     (Inl (ConnectionError (getConnectionErrorMessage cfg ''ERR_FR_TOO_MANY_REDIRECTS'')
             ''unifi'' (Some (unifi_host cfg)) (Some (unifi_port cfg))
             (Some ''ERR_FR_TOO_MANY_REDIRECTS'')),
      a\<lparr>requests := requests a @ GetRoot # replicate defaultMaxRedirects (Follow l)\<rparr>)"
  by (simp add: login_def testConnectivity_def Let_def follow_redirects_loop [OF assms])

lemma loginLegacyEndpoint_ok:
  "loginLegacyEndpoint ctl a = (Inr u, a') \<Longrightarrow> isLoggedIn a'"
  by (auto simp add: loginLegacyEndpoint_def client_request_def send_def
      split: prod.splits sum.splits outcome.splits if_splits)

lemma loginWithCredentials_ok:
  "loginWithCredentials ctl a = (Inr u, a') \<Longrightarrow> isLoggedIn a'"
  by (auto simp add: loginWithCredentials_def client_request_def send_def
      dest: loginLegacyEndpoint_ok split: prod.splits sum.splits outcome.splits if_splits)

lemma loginWithApiKey_ok:
  "loginWithApiKey cfg ctl a = (Inr u, a') \<Longrightarrow> isLoggedIn a'"
  by (auto simp add: loginWithApiKey_def client_request_def send_def Let_def
      split: prod.splits sum.splits outcome.splits if_splits option.splits list.splits)

lemma login_ok: "login cfg ctl a = (Inr u, a') \<Longrightarrow> isLoggedIn a'"
  by (auto simp add: login_def dest: loginWithApiKey_ok loginWithCredentials_ok
      split: prod.splits sum.splits if_splits)

lemma ensureLoggedIn_id: "isLoggedIn a \<Longrightarrow> ensureLoggedIn cfg ctl a = (Inr (), a)"
  by (simp add: ensureLoggedIn_def)

lemma ensureLoggedIn_ok: "ensureLoggedIn cfg ctl a = (Inr u, b) \<Longrightarrow> isLoggedIn b"
  by (auto simp add: ensureLoggedIn_def dest: login_ok split: if_splits)

lemma fetchRawVouchers_success:
  "ensureLoggedIn cfg ctl a = (Inr u, b) \<Longrightarrow> fetchAttempt cfg ctl b = Some (Inr vs, c) \<Longrightarrow>
     fetchRawVouchers cfg ctl a = Some (Inr vs, c)"
  by (subst fetchRawVouchers.simps) simp

lemma fetchRawVouchers_expired:
  "ensureLoggedIn cfg ctl a = (Inr u, b) \<Longrightarrow> fetchAttempt cfg ctl b = Some (Inl e, c) \<Longrightarrow>
   isSessionExpired e \<Longrightarrow>
     fetchRawVouchers cfg ctl a =
       (case login cfg ctl (c\<lparr>isLoggedIn := False\<rparr>) of
          (Inl e', d) \<Rightarrow> Some (Inl e', d)
        | (Inr u, d) \<Rightarrow> fetchRawVouchers cfg ctl d)"
  by (subst fetchRawVouchers.simps) simp

lemma deleteVoucher_success:
  "ensureLoggedIn cfg ctl a = (Inr u, b) \<Longrightarrow> deleteAttempt cfg ctl v b = (Inr u', c) \<Longrightarrow>
     deleteVoucher cfg ctl v a = Some (Inr (), c)"
  by (subst deleteVoucher.simps) simp

lemma deleteVoucher_expired:
  "ensureLoggedIn cfg ctl a = (Inr u, b) \<Longrightarrow> deleteAttempt cfg ctl v b = (Inl e, c) \<Longrightarrow>
   isSessionExpired e \<Longrightarrow>
     deleteVoucher cfg ctl v a =
       (case login cfg ctl (c\<lparr>isLoggedIn := False\<rparr>) of
          (Inl e', d) \<Rightarrow> Some (Inl e', d)
        | (Inr u, d) \<Rightarrow> deleteVoucher cfg ctl v d)"
  by (subst deleteVoucher.simps) simp

lemma fetchWLANsDirect_effect:
  "fetchWLANsDirect ctl a = (r, a') \<Longrightarrow>
     a' = a\<lparr>requests := requests a @ [GetWlanDirect]\<rparr>"
  by (auto simp add: fetchWLANsDirect_def client_request_def send_def
      split: prod.splits sum.splits outcome.splits if_splits)

lemma fetchWLANs_error_effect:
  "fetchWLANs ctl a = (Inl e, a') \<Longrightarrow>
     a' = a\<lparr>requests := requests a @ [GetWlanProxy, GetWlanDirect]\<rparr>"
  by (auto simp add: fetchWLANs_def client_request_def send_def
      dest!: fetchWLANsDirect_effect
      split: prod.splits sum.splits outcome.splits if_splits option.splits)

lemma getAvailableWLANs_logged_in:
  "isLoggedIn a \<Longrightarrow> \<exists>ws a'. getAvailableWLANs cfg ctl a = (Inr ws, a')"
  by (simp add: getAvailableWLANs_def ensureLoggedIn_id split: prod.splits sum.splits)

lemma getAvailableWLANs_login_error:
  "\<not> isLoggedIn a \<Longrightarrow> login cfg ctl a = (Inl e, a') \<Longrightarrow>
     getAvailableWLANs cfg ctl a = (Inl e, a')"
  by (simp add: getAvailableWLANs_def ensureLoggedIn_def)


text \<open>
  The key-based path on the example controller: the probe, the site list, then two
  pages, the second asked for at offset 2.
\<close>

lemma fetchRawVouchers_pages:
  "fetchRawVouchers config_key paging adapter0 =
     Some (Inr [blank ''11111'', blank ''22222'', blank ''33333''],
           \<lparr> isLoggedIn = True, siteId = Some ''site-1'',
             requests = [GetRoot, GetSites, GetVouchersNew (Some ''site-1'') 0,
                         GetVouchersNew (Some ''site-1'') 2],
             warnings = [] \<rparr>)"
  by code_simp

text \<open>
  The retry has no bound: when the controller answers every voucher request with 401
  and accepts every login, \<^verbatim>\<open>fetchRawVouchers\<close> logs in and tries again for ever, and
  so does \<^verbatim>\<open>deleteVoucher\<close>.
\<close>

lemma login_credentials_accepted:
  assumes "\<not> useApiKey cfg"
      and "\<forall>n. \<exists>r. ctl n GetRoot = Response r \<and> redirect_target r = None"
      and "\<forall>n. \<exists>r. ctl n PostAuthLogin = Response r \<and> resp_status r = 200"
  shows "\<exists>a'. login cfg ctl a = (Inr (), a')"
proof -
  from assms(2) obtain r where
    r: "ctl (length (requests a)) GetRoot = Response r" "redirect_target r = None" by blast
  from assms(3) obtain r' where
    r': "ctl (Suc (length (requests a))) PostAuthLogin = Response r'" "resp_status r' = 200"
    by blast
  show ?thesis using assms(1) r' follow_redirects_direct [of ctl a GetRoot r defaultMaxRedirects, OF r]
    by (simp add: login_def testConnectivity_def send_def loginWithCredentials_def
        client_request_def)
qed

lemma fetchAttempt_legacy_expired:
  assumes "\<not> useApiKey cfg"
      and "\<forall>n. \<exists>r. ctl n GetVouchersLegacy = Response r \<and> resp_status r = 401"
  shows "\<exists>e a'. fetchAttempt cfg ctl a = Some (Inl e, a') \<and> isSessionExpired e"
proof -
  from assms(2) obtain r where
    r: "ctl (length (requests a)) GetVouchersLegacy = Response r" "resp_status r = 401" by blast
  show ?thesis using assms(1) r
    by (simp add: fetchAttempt_def fetchVouchersLegacyApi_def client_request_def send_def)
qed

lemma fetchRawVouchers_never_returns:
  assumes "\<not> useApiKey cfg"
      and "\<forall>n. \<exists>r. ctl n GetRoot = Response r \<and> redirect_target r = None"
      and "\<forall>n. \<exists>r. ctl n PostAuthLogin = Response r \<and> resp_status r = 200"
      and "\<forall>n. \<exists>r. ctl n GetVouchersLegacy = Response r \<and> resp_status r = 401"
  shows "fetchRawVouchers cfg ctl a = None"
proof (cases "fetchRawVouchers cfg ctl a")
  case None
  then show ?thesis .
next
  case (Some y)
  define P where "P = (\<lambda>(c::config) (t::controller) (x::adapter)
      (z::(error + UniFiVoucher list) \<times> adapter). c = cfg \<and> t = ctl \<longrightarrow> False)"
  have "P cfg ctl a y"
    apply (rule fetchRawVouchers.raw_induct [where P = P, OF _ Some])
    subgoal premises prems for f c t x z
    proof (unfold P_def, intro impI)
      assume eq: "c = cfg \<and> t = ctl"
      obtain r1 a1 where e: "ensureLoggedIn cfg ctl x = (r1, a1)"
        by (cases "ensureLoggedIn cfg ctl x")
      have "\<exists>a'. ensureLoggedIn cfg ctl x = (Inr (), a')"
        using login_credentials_accepted [of cfg ctl x, OF assms(1,2,3)]
        by (simp add: ensureLoggedIn_def)
      with e have r1: "r1 = Inr ()" by auto
      from fetchAttempt_legacy_expired [of cfg ctl a1, OF assms(1,4)] obtain e2 a2 where
        f: "fetchAttempt cfg ctl a1 = Some (Inl e2, a2)" "isSessionExpired e2" by blast
      from login_credentials_accepted [of cfg ctl "a2\<lparr>isLoggedIn := False\<rparr>", OF assms(1,2,3)]
      obtain a3 where l: "login cfg ctl (a2\<lparr>isLoggedIn := False\<rparr>) = (Inr (), a3)" by blast
      from prems(2) eq e r1 f l have "f cfg ctl a3 = Some z" by simp
      from prems(1) [OF this] show False by (simp add: P_def)
    qed
    done
  then show ?thesis by (simp add: P_def)
qed


lemma deleteAttempt_legacy_expired:
  assumes "\<not> useApiKey cfg"
      and "\<forall>n v. \<exists>r. ctl n (DeleteVoucherLegacy v) = Response r \<and> resp_status r = 401"
  shows "\<exists>e a'. deleteAttempt cfg ctl v a = (Inl e, a') \<and> isSessionExpired e"
proof -
  from assms(2) obtain r where
    r: "ctl (length (requests a)) (DeleteVoucherLegacy v) = Response r" "resp_status r = 401"
    by blast
  show ?thesis using assms(1) r
    by (simp add: deleteAttempt_def deleteVoucherLegacyApi_def client_request_def send_def)
qed

lemma deleteVoucher_never_returns:
  assumes "\<not> useApiKey cfg"
      and "\<forall>n. \<exists>r. ctl n GetRoot = Response r \<and> redirect_target r = None"
      and "\<forall>n. \<exists>r. ctl n PostAuthLogin = Response r \<and> resp_status r = 200"
      and "\<forall>n v. \<exists>r. ctl n (DeleteVoucherLegacy v) = Response r \<and> resp_status r = 401"
  shows "deleteVoucher cfg ctl v a = None"
proof (cases "deleteVoucher cfg ctl v a")
  case None
  then show ?thesis .
next
  case (Some y)
  define P where "P = (\<lambda>(c::config) (t::controller) (w::string) (x::adapter)
      (z::(error + unit) \<times> adapter). c = cfg \<and> t = ctl \<longrightarrow> False)"
  have "P cfg ctl v a y"
    apply (rule deleteVoucher.raw_induct [where P = P, OF _ Some])
    subgoal premises prems for f c t w x z
    proof (unfold P_def, intro impI)
      assume eq: "c = cfg \<and> t = ctl"
      obtain r1 a1 where e: "ensureLoggedIn cfg ctl x = (r1, a1)"
        by (cases "ensureLoggedIn cfg ctl x")
      have "\<exists>a'. ensureLoggedIn cfg ctl x = (Inr (), a')"
        using login_credentials_accepted [of cfg ctl x, OF assms(1,2,3)]
        by (simp add: ensureLoggedIn_def)
      with e have r1: "r1 = Inr ()" by auto
      from deleteAttempt_legacy_expired [of cfg ctl w a1, OF assms(1,4)] obtain e2 a2 where
        f: "deleteAttempt cfg ctl w a1 = (Inl e2, a2)" "isSessionExpired e2" by blast
      from login_credentials_accepted [of cfg ctl "a2\<lparr>isLoggedIn := False\<rparr>", OF assms(1,2,3)]
      obtain a3 where l: "login cfg ctl (a2\<lparr>isLoggedIn := False\<rparr>) = (Inr (), a3)" by blast
      from prems(2) eq e r1 f l have "f cfg ctl w a3 = Some z" by simp
      from prems(1) [OF this] show False by (simp add: P_def)
    qed
    done
  then show ?thesis by (simp add: P_def)
qed

section \<open>The adapter: properties\<close>

text \<open>
  An authenticated adapter whose WLAN requests are answered 401: \<^verbatim>\<open>getAvailableWLANs\<close>
  makes the two WLAN requests and returns the empty list, with no login and no
  retry, the flag still set. And a controller that answers the first two voucher (or
  delete) requests with 401: the operation logs in twice, tries three times and
  returns the result of the third attempt; the second 401 is not raised.
\<close>

theorem session_expiry_counterexample:
  "getAvailableWLANs config0 (expiring 1) adapter1 =
     (Inr [], \<lparr> isLoggedIn = True, siteId = None, requests = [GetWlanProxy, GetWlanDirect],
                warnings = [''Failed to fetch WLANs''] \<rparr>) \<and>
   getVouchers never_a_date 0 config0 (expiring 4) adapter1 =
     Some (Inr (mapVouchers never_a_date 0 [blank ''12345'']),
           after [GetVouchersLegacy, GetRoot, PostAuthLogin,
                  GetVouchersLegacy, GetRoot, PostAuthLogin, GetVouchersLegacy]) \<and>
   deleteVoucher config0 (expiring 4) ''v9'' adapter1 =
     Some (Inr (),
           after [DeleteVoucherLegacy ''v9'', GetRoot, PostAuthLogin,
                  DeleteVoucherLegacy ''v9'', GetRoot, PostAuthLogin, DeleteVoucherLegacy ''v9''])"
  by code_simp

text \<open>
  C1, as the code has it. When the attempt of \<^verbatim>\<open>getVouchers\<close> or of \<^verbatim>\<open>deleteVoucher\<close>,
  made once the adapter is logged in, throws an HTTP 401, the adapter clears its flag
  and runs \<^verbatim>\<open>login\<close> again: what that login throws is thrown to the caller, and when
  it returns and the second attempt succeeds, the operation returns the result of
  the second attempt (for \<^verbatim>\<open>getVouchers\<close>, the mapped vouchers), having logged in
  once more and tried twice. \<^verbatim>\<open>getAvailableWLANs\<close>, once the adapter is logged in,
  answers any error of its fetch, a 401 included, with the empty list and a warning,
  after the two WLAN requests and nothing else: no login, the flag untouched.
\<close>

theorem session_expiry_retry:
  "(ensureLoggedIn cfg ctl a = (Inr (), b) \<and> fetchAttempt cfg ctl b = Some (Inl e, c) \<and>
    isSessionExpired e \<longrightarrow>
      (login cfg ctl (c\<lparr>isLoggedIn := False\<rparr>) = (Inl e', d) \<longrightarrow>
         getVouchers parse nowMs cfg ctl a = Some (Inl e', d)) \<and>
      (login cfg ctl (c\<lparr>isLoggedIn := False\<rparr>) = (Inr (), d) \<and>
       fetchAttempt cfg ctl d = Some (Inr vs, z) \<longrightarrow>
         getVouchers parse nowMs cfg ctl a = Some (Inr (mapVouchers parse nowMs vs), z))) \<and>
   (ensureLoggedIn cfg ctl a = (Inr (), b) \<and> deleteAttempt cfg ctl v b = (Inl e, c) \<and>
    isSessionExpired e \<longrightarrow>
      (login cfg ctl (c\<lparr>isLoggedIn := False\<rparr>) = (Inl e', d) \<longrightarrow>
         deleteVoucher cfg ctl v a = Some (Inl e', d)) \<and>
      (login cfg ctl (c\<lparr>isLoggedIn := False\<rparr>) = (Inr (), d) \<and>
       deleteAttempt cfg ctl v d = (Inr (), z) \<longrightarrow>
         deleteVoucher cfg ctl v a = Some (Inr (), z))) \<and>
   (ensureLoggedIn cfg ctl a = (Inr (), b) \<and> fetchWLANs ctl b = (Inl e, c) \<longrightarrow>
      getAvailableWLANs cfg ctl a =
        (Inr [], b\<lparr>requests := requests b @ [GetWlanProxy, GetWlanDirect],
                   warnings := warnings b @ [''Failed to fetch WLANs'']\<rparr>))"
proof -
  have V: "ensureLoggedIn cfg ctl a = (Inr (), b) \<and> fetchAttempt cfg ctl b = Some (Inl e, c) \<and>
    isSessionExpired e \<longrightarrow>
      (login cfg ctl (c\<lparr>isLoggedIn := False\<rparr>) = (Inl e', d) \<longrightarrow>
         getVouchers parse nowMs cfg ctl a = Some (Inl e', d)) \<and>
      (login cfg ctl (c\<lparr>isLoggedIn := False\<rparr>) = (Inr (), d) \<and>
       fetchAttempt cfg ctl d = Some (Inr vs, z) \<longrightarrow>
         getVouchers parse nowMs cfg ctl a = Some (Inr (mapVouchers parse nowMs vs), z))"
  proof (intro impI conjI)
    assume h: "ensureLoggedIn cfg ctl a = (Inr (), b) \<and>
               fetchAttempt cfg ctl b = Some (Inl e, c) \<and> isSessionExpired e"
    then have eq: "fetchRawVouchers cfg ctl a =
       (case login cfg ctl (c\<lparr>isLoggedIn := False\<rparr>) of
          (Inl e', d) \<Rightarrow> Some (Inl e', d)
        | (Inr u, d) \<Rightarrow> fetchRawVouchers cfg ctl d)"
      using fetchRawVouchers_expired by blast
    { assume "login cfg ctl (c\<lparr>isLoggedIn := False\<rparr>) = (Inl e', d)"
      with eq show "getVouchers parse nowMs cfg ctl a = Some (Inl e', d)"
        by (simp add: getVouchers_def) }
    { assume l: "login cfg ctl (c\<lparr>isLoggedIn := False\<rparr>) = (Inr (), d) \<and>
                 fetchAttempt cfg ctl d = Some (Inr vs, z)"
      then have "isLoggedIn d" using login_ok by blast
      then have "ensureLoggedIn cfg ctl d = (Inr (), d)" by (rule ensureLoggedIn_id)
      with l have "fetchRawVouchers cfg ctl d = Some (Inr vs, z)"
        using fetchRawVouchers_success by blast
      with eq l show "getVouchers parse nowMs cfg ctl a = Some (Inr (mapVouchers parse nowMs vs), z)"
        by (simp add: getVouchers_def) }
  qed
  have D: "ensureLoggedIn cfg ctl a = (Inr (), b) \<and> deleteAttempt cfg ctl v b = (Inl e, c) \<and>
    isSessionExpired e \<longrightarrow>
      (login cfg ctl (c\<lparr>isLoggedIn := False\<rparr>) = (Inl e', d) \<longrightarrow>
         deleteVoucher cfg ctl v a = Some (Inl e', d)) \<and>
      (login cfg ctl (c\<lparr>isLoggedIn := False\<rparr>) = (Inr (), d) \<and>
       deleteAttempt cfg ctl v d = (Inr (), z) \<longrightarrow>
         deleteVoucher cfg ctl v a = Some (Inr (), z))"
  proof (intro impI conjI)
    assume h: "ensureLoggedIn cfg ctl a = (Inr (), b) \<and>
               deleteAttempt cfg ctl v b = (Inl e, c) \<and> isSessionExpired e"
    then have eq: "deleteVoucher cfg ctl v a =
       (case login cfg ctl (c\<lparr>isLoggedIn := False\<rparr>) of
          (Inl e', d) \<Rightarrow> Some (Inl e', d)
        | (Inr u, d) \<Rightarrow> deleteVoucher cfg ctl v d)"
      using deleteVoucher_expired by blast
    { assume "login cfg ctl (c\<lparr>isLoggedIn := False\<rparr>) = (Inl e', d)"
      with eq show "deleteVoucher cfg ctl v a = Some (Inl e', d)" by simp }
    { assume l: "login cfg ctl (c\<lparr>isLoggedIn := False\<rparr>) = (Inr (), d) \<and>
                 deleteAttempt cfg ctl v d = (Inr (), z)"
      then have "isLoggedIn d" using login_ok by blast
      then have "ensureLoggedIn cfg ctl d = (Inr (), d)" by (rule ensureLoggedIn_id)
      with l have "deleteVoucher cfg ctl v d = Some (Inr (), z)"
        using deleteVoucher_success by blast
      with eq l show "deleteVoucher cfg ctl v a = Some (Inr (), z)" by simp }
  qed
  have W: "ensureLoggedIn cfg ctl a = (Inr (), b) \<and> fetchWLANs ctl b = (Inl e, c) \<longrightarrow>
      getAvailableWLANs cfg ctl a =
        (Inr [], b\<lparr>requests := requests b @ [GetWlanProxy, GetWlanDirect],
                   warnings := warnings b @ [''Failed to fetch WLANs'']\<rparr>)"
  proof
    assume h: "ensureLoggedIn cfg ctl a = (Inr (), b) \<and> fetchWLANs ctl b = (Inl e, c)"
    then have "c = b\<lparr>requests := requests b @ [GetWlanProxy, GetWlanDirect]\<rparr>"
      using fetchWLANs_error_effect by blast
    with h show "getAvailableWLANs cfg ctl a =
        (Inr [], b\<lparr>requests := requests b @ [GetWlanProxy, GetWlanDirect],
                   warnings := warnings b @ [''Failed to fetch WLANs'']\<rparr>)"
      by (simp add: getAvailableWLANs_def)
  qed
  from V D W show ?thesis by blast
qed

theorem session_expiry_retry_witness:
  "getVouchers never_a_date 0 config0 (expiring 1) adapter1 =
     Some (Inr (mapVouchers never_a_date 0 [blank ''12345'']),
           after [GetVouchersLegacy, GetRoot, PostAuthLogin, GetVouchersLegacy]) \<and>
   getVouchers never_a_date 0 config0 session_lost adapter1 =
     Some (Inl refused_error, (after [GetVouchersLegacy, GetRoot])\<lparr>isLoggedIn := False\<rparr>) \<and>
   deleteVoucher config0 (expiring 1) ''v9'' adapter1 =
     Some (Inr (), after [DeleteVoucherLegacy ''v9'', GetRoot, PostAuthLogin, DeleteVoucherLegacy ''v9'']) \<and>
   getAvailableWLANs config0 (expiring 1) adapter1 =
     (Inr [], adapter1\<lparr>requests := requests adapter1 @ [GetWlanProxy, GetWlanDirect],
                        warnings := warnings adapter1 @ [''Failed to fetch WLANs'']\<rparr>)"
proof -
  have li: "ensureLoggedIn config0 (expiring 1) adapter1 = (Inr (), adapter1)" by code_simp
  have li': "ensureLoggedIn config0 session_lost adapter1 = (Inr (), adapter1)" by code_simp
  have ex: "isSessionExpired expired_error" by code_simp
  have f1: "fetchAttempt config0 (expiring 1) adapter1 = Some (Inl expired_error, after [GetVouchersLegacy])"
    by code_simp
  have l1: "login config0 (expiring 1) ((after [GetVouchersLegacy])\<lparr>isLoggedIn := False\<rparr>)
              = (Inr (), after [GetVouchersLegacy, GetRoot, PostAuthLogin])"
    by code_simp
  have f2: "fetchAttempt config0 (expiring 1) (after [GetVouchersLegacy, GetRoot, PostAuthLogin])
              = Some (Inr [blank ''12345''],
                      after [GetVouchersLegacy, GetRoot, PostAuthLogin, GetVouchersLegacy])"
    by code_simp
  have f3: "fetchAttempt config0 session_lost adapter1 = Some (Inl expired_error, after [GetVouchersLegacy])"
    by code_simp
  have l3: "login config0 session_lost ((after [GetVouchersLegacy])\<lparr>isLoggedIn := False\<rparr>)
              = (Inl refused_error, (after [GetVouchersLegacy, GetRoot])\<lparr>isLoggedIn := False\<rparr>)"
    by code_simp
  have d1: "deleteAttempt config0 (expiring 1) ''v9'' adapter1
              = (Inl expired_error, after [DeleteVoucherLegacy ''v9''])"
    by code_simp
  have l2: "login config0 (expiring 1) ((after [DeleteVoucherLegacy ''v9''])\<lparr>isLoggedIn := False\<rparr>)
              = (Inr (), after [DeleteVoucherLegacy ''v9'', GetRoot, PostAuthLogin])"
    by code_simp
  have d2: "deleteAttempt config0 (expiring 1) ''v9''
                (after [DeleteVoucherLegacy ''v9'', GetRoot, PostAuthLogin])
              = (Inr (), after [DeleteVoucherLegacy ''v9'', GetRoot, PostAuthLogin,
                                DeleteVoucherLegacy ''v9''])"
    by code_simp
  have w1: "fetchWLANs (expiring 1) adapter1
              = (Inl expired_error, after [GetWlanProxy, GetWlanDirect])"
    by code_simp
  from li ex f1 l1 f2
    session_expiry_retry [where cfg = config0 and ctl = "expiring 1" and a = adapter1
        and b = adapter1 and e = expired_error and c = "after [GetVouchersLegacy]"
        and d = "after [GetVouchersLegacy, GetRoot, PostAuthLogin]" and vs = "[blank ''12345'']"
        and z = "after [GetVouchersLegacy, GetRoot, PostAuthLogin, GetVouchersLegacy]"
        and parse = never_a_date and nowMs = 0]
  have A: "getVouchers never_a_date 0 config0 (expiring 1) adapter1 =
     Some (Inr (mapVouchers never_a_date 0 [blank ''12345'']),
           after [GetVouchersLegacy, GetRoot, PostAuthLogin, GetVouchersLegacy])"
    by blast
  from li' ex f3 l3
    session_expiry_retry [where cfg = config0 and ctl = session_lost and a = adapter1
        and b = adapter1 and e = expired_error and c = "after [GetVouchersLegacy]"
        and e' = refused_error
        and d = "(after [GetVouchersLegacy, GetRoot])\<lparr>isLoggedIn := False\<rparr>"
        and parse = never_a_date and nowMs = 0]
  have B: "getVouchers never_a_date 0 config0 session_lost adapter1 =
     Some (Inl refused_error, (after [GetVouchersLegacy, GetRoot])\<lparr>isLoggedIn := False\<rparr>)"
    by blast
  from li ex d1 l2 d2
    session_expiry_retry [where cfg = config0 and ctl = "expiring 1" and a = adapter1
        and b = adapter1 and e = expired_error and v = "''v9''"
        and c = "after [DeleteVoucherLegacy ''v9'']"
        and d = "after [DeleteVoucherLegacy ''v9'', GetRoot, PostAuthLogin]"
        and z = "after [DeleteVoucherLegacy ''v9'', GetRoot, PostAuthLogin,
                        DeleteVoucherLegacy ''v9'']"]
  have C: "deleteVoucher config0 (expiring 1) ''v9'' adapter1 =
     Some (Inr (), after [DeleteVoucherLegacy ''v9'', GetRoot, PostAuthLogin, DeleteVoucherLegacy ''v9''])"
    by blast
  from li w1
    session_expiry_retry [where cfg = config0 and ctl = "expiring 1" and a = adapter1
        and b = adapter1 and e = expired_error and c = "after [GetWlanProxy, GetWlanDirect]"]
  have D: "getAvailableWLANs config0 (expiring 1) adapter1 =
     (Inr [], adapter1\<lparr>requests := requests adapter1 @ [GetWlanProxy, GetWlanDirect],
                        warnings := warnings adapter1 @ [''Failed to fetch WLANs'']\<rparr>)"
    by blast
  from A B C D show ?thesis by blast
qed

text \<open>
  C8 at the input where the code breaks it: an adapter that is not logged in and a
  controller that refuses the connection. The login that \<^verbatim>\<open>getAvailableWLANs\<close> runs
  before its \<^verbatim>\<open>try\<close> throws the connection error, and the caller receives it instead
  of an empty list; no warning is logged.
\<close>

theorem getAvailableWLANs_raises_when_login_fails:
  "getAvailableWLANs config0 refusing adapter0 =
     (Inl refused_error, adapter0\<lparr>requests := [GetRoot]\<rparr>)"
  by code_simp

text \<open>
  C9. When the connectivity probe gets no response because the host refused the
  connection (\<^verbatim>\<open>ECONNREFUSED\<close>), \<^verbatim>\<open>login\<close> throws a \<^verbatim>\<open>ConnectionError\<close> carrying
  the message for a refused connection, the configured host and port and the code
  \<^verbatim>\<open>ECONNREFUSED\<close>; the probe is the only request made, so no authentication request
  was sent, and the adapter is otherwise unchanged.
\<close>

theorem login_refused_before_authentication:
  assumes "ctl (length (requests a)) GetRoot = NetworkError (Some ''ECONNREFUSED'') m"
  shows "login cfg ctl a =
           (Inl (ConnectionError (getConnectionErrorMessage cfg ''ECONNREFUSED'') ''unifi''
                   (Some (unifi_host cfg)) (Some (unifi_port cfg)) (Some ''ECONNREFUSED'')),
            a\<lparr>requests := requests a @ [GetRoot]\<rparr>)"
  using follow_redirects_no_response
          [of ctl a GetRoot "Some ''ECONNREFUSED''" m defaultMaxRedirects, OF assms]
  by (simp add: login_def testConnectivity_def Let_def)

theorem login_refused_before_authentication_witness:
  "login config0 refusing adapter0 = (Inl refused_error, adapter0\<lparr>requests := [GetRoot]\<rparr>)"
proof -
  have h: "refusing (length (requests adapter0)) GetRoot =
             NetworkError (Some ''ECONNREFUSED'') ''connect ECONNREFUSED 192.168.1.1:443''"
    by (simp add: refusing_def)
  have m: "ConnectionError (getConnectionErrorMessage config0 ''ECONNREFUSED'') ''unifi''
             (Some (unifi_host config0)) (Some (unifi_port config0)) (Some ''ECONNREFUSED'')
           = refused_error"
    by code_simp
  have r: "adapter0\<lparr>requests := requests adapter0 @ [GetRoot]\<rparr> = adapter0\<lparr>requests := [GetRoot]\<rparr>"
    by (simp add: adapter0_def)
  from login_refused_before_authentication
         [of refusing adapter0 "''connect ECONNREFUSED 192.168.1.1:443''" config0, OF h] m r
  show ?thesis by simp
qed

end
